theory Spec2Isabelle
  imports Complex_Main "HOL-Library.AList"
begin

section \<open>JavaScript values and the host environment\<close>

text \<open>
  The connection services of the repository are TypeScript classes that run in a browser.
  What they receive from and hand to the browser is modelled by values: a message is a
  JavaScript object, an object is an association list in insertion order, and a property
  that is absent reads as \<open>JUndefined\<close>. \<open>JBigInt\<close> stands for the values that
  \<^verbatim>\<open>JSON.stringify\<close> refuses with a TypeError; \<open>JError\<close> is an \<^verbatim>\<open>Error\<close> object with
  its message.
\<close>

datatype jval =
    JUndefined
  | JNull
  | JBool bool
  | JNum int
  | JStr string
  | JBigInt int
  | JError string
  | JArr "jval list"
  | JObj "(string \<times> jval) list"

type_synonym obj = "(string \<times> jval) list"

text \<open>Property access \<^verbatim>\<open>o.k\<close> on an object.\<close>

definition get_prop :: "obj \<Rightarrow> string \<Rightarrow> jval" where
  "get_prop ob k = (case map_of ob k of None \<Rightarrow> JUndefined | Some v \<Rightarrow> v)"

text \<open>
  Property access \<^verbatim>\<open>v.k\<close> on a value that is neither \<^verbatim>\<open>null\<close> nor \<^verbatim>\<open>undefined\<close>
  (on those it throws a TypeError, which the callers below treat before they read a
  property). Of the properties the services read (\<^verbatim>\<open>type\<close>, \<^verbatim>\<open>data\<close>, \<^verbatim>\<open>error\<close>,
  \<^verbatim>\<open>message\<close>) only an object can have one.
\<close>

definition js_member :: "jval \<Rightarrow> string \<Rightarrow> jval" where
  "js_member v k = (case v of JObj kvs \<Rightarrow> get_prop kvs k | _ \<Rightarrow> JUndefined)"

text \<open>Truthiness, and the operator \<^verbatim>\<open>a || b\<close>.\<close>

fun truthy :: "jval \<Rightarrow> bool" where
  "truthy JUndefined = False"
| "truthy JNull = False"
| "truthy (JBool b) = b"
| "truthy (JNum n) = (n \<noteq> 0)"
| "truthy (JStr s) = (s \<noteq> [])"
| "truthy (JBigInt n) = (n \<noteq> 0)"
| "truthy (JError m) = True"
| "truthy (JArr vs) = True"
| "truthy (JObj kvs) = True"

definition js_or :: "jval \<Rightarrow> jval \<Rightarrow> jval" where
  "js_or a b = (if truthy a then a else b)"

text \<open>
  \<^verbatim>\<open>JSON.stringify(v)\<close> throws exactly when a BigInt occurs in \<open>v\<close>. The text it
  produces is not modelled: a frame written to a socket is recorded as the object that was
  serialised.
\<close>

fun stringify_throws :: "jval \<Rightarrow> bool" where
  "stringify_throws (JBigInt n) = True"
| "stringify_throws (JArr vs) = (\<exists>v \<in> set vs. stringify_throws v)"
| "stringify_throws (JObj kvs) = (\<exists>v \<in> set (map snd kvs). stringify_throws v)"
| "stringify_throws v = False"

text \<open>\<^verbatim>\<open>xs.join(sep)\<close> on an array of strings.\<close>

fun join :: "string \<Rightarrow> string list \<Rightarrow> string" where
  "join sep [] = []"
| "join sep [x] = x"
| "join sep (x # y # ys) = x @ sep @ join sep (y # ys)"

text \<open>
  \<^verbatim>\<open>Math.pow\<close> and \<^verbatim>\<open>Math.min\<close>. Delays are rationals: with the constructors'
  parameters and an attempt count within the limit, every delay a service computes is a
  dyadic rational that a double holds exactly (such as \<open>3000 * 1.5 ^ 9 = 115330.078125\<close>),
  so no rounding takes place.
\<close>

definition Math_pow :: "rat \<Rightarrow> int \<Rightarrow> rat" where
  "Math_pow b e = (if 0 \<le> e then b ^ nat e else 1 / b ^ nat (- e))"

definition Math_min :: "rat \<Rightarrow> rat \<Rightarrow> rat" where
  "Math_min a b = (if a \<le> b then a else b)"

datatype console_call = Log | Warn | Error

datatype readyState = CONNECTING | OPEN | CLOSING | CLOSED

record websocket =
  sock_id :: nat
  sock_url :: string
  readyState :: readyState

datatype timer_kind = Timeout | Interval

text \<open>
  The part of the browser a service talks to. \<open>clock\<close> is what
  \<^verbatim>\<open>new Date().toISOString()\<close> returns now; \<open>WebSocket_throws\<close> tells for which addresses
  the \<^verbatim>\<open>WebSocket\<close> constructor throws; \<open>sockets_created\<close> counts the sockets constructed
  so far and numbers them; \<open>wire\<close> lists the frames handed to \<^verbatim>\<open>ws.send\<close> and
  \<open>close_calls\<close> the calls of \<^verbatim>\<open>ws.close\<close>, each with the socket it was made on;
  \<open>timers\<close> is the table of pending timers; \<open>console\<close> lists the console calls (their
  level, not their text); \<open>emitted\<close> lists the events handed to \<^verbatim>\<open>emit\<close>, in order.
\<close>

record 'cb host =
  clock :: string
  WebSocket_throws :: "string \<Rightarrow> bool"
  sockets_created :: nat
  wire :: "(nat \<times> obj) list"
  close_calls :: "(nat \<times> nat \<times> string) list"
  timers :: "(nat \<times> timer_kind \<times> 'cb \<times> rat) list"
  next_timer :: nat
  console :: "console_call list"
  emitted :: "(string \<times> jval list) list"

definition console_log :: "('cb, 'm) host_scheme \<Rightarrow> ('cb, 'm) host_scheme" where
  "console_log s = s\<lparr>console := console s @ [Log]\<rparr>"

definition console_warn :: "('cb, 'm) host_scheme \<Rightarrow> ('cb, 'm) host_scheme" where
  "console_warn s = s\<lparr>console := console s @ [Warn]\<rparr>"

definition console_error :: "('cb, 'm) host_scheme \<Rightarrow> ('cb, 'm) host_scheme" where
  "console_error s = s\<lparr>console := console s @ [Error]\<rparr>"

definition add_timer ::
  "timer_kind \<Rightarrow> 'cb \<Rightarrow> rat \<Rightarrow> ('cb, 'm) host_scheme \<Rightarrow> ('cb, 'm) host_scheme" where
  "add_timer k cb delay s =
     s\<lparr>timers := timers s @ [(next_timer s, k, cb, delay)], next_timer := Suc (next_timer s)\<rparr>"

text \<open>\<^verbatim>\<open>clearTimeout(id)\<close> and \<^verbatim>\<open>clearInterval(id)\<close>: an unknown id is ignored.\<close>

definition clearTimeout :: "nat \<Rightarrow> ('cb, 'm) host_scheme \<Rightarrow> ('cb, 'm) host_scheme" where
  "clearTimeout tid s = s\<lparr>timers := filter (\<lambda>t. fst t \<noteq> tid) (timers s)\<rparr>"

text \<open>The pending timers whose callback satisfies \<open>P\<close>.\<close>

definition pending :: "('cb \<Rightarrow> bool) \<Rightarrow> ('cb, 'm) host_scheme \<Rightarrow> (nat \<times> timer_kind \<times> 'cb \<times> rat) list" where
  "pending P s = filter (\<lambda>t. P (fst (snd (snd t)))) (timers s)"

section \<open>SimpleEventEmitter (src/types/index.ts)\<close>

text \<open>
  \<^verbatim>\<open>listeners\<close> maps an event name to the array of its callbacks. A callback is known by
  its identity (a number); what it does is given by \<open>run\<close>, which takes the callback, the
  arguments and the subscribers' own state, and either returns or throws, in both cases
  with the state it has reached. A callback that calls back into the emitter is outside
  this model.
\<close>

datatype 'w outcome = Returns 'w | Throws 'w

record 'w SimpleEventEmitter =
  listeners :: "string \<rightharpoonup> nat list"
  emitter_console :: "console_call list"
  subscribers :: 'w

definition SimpleEventEmitter_on ::
  "string \<Rightarrow> nat \<Rightarrow> 'w SimpleEventEmitter \<Rightarrow> 'w SimpleEventEmitter" where
  "SimpleEventEmitter_on event callback s =
     (let l = (case listeners s event of None \<Rightarrow> [] | Some cbs \<Rightarrow> cbs)
      in s\<lparr>listeners := (listeners s)(event \<mapsto> l @ [callback])\<rparr>)"

definition SimpleEventEmitter_off ::
  "string \<Rightarrow> nat \<Rightarrow> 'w SimpleEventEmitter \<Rightarrow> 'w SimpleEventEmitter" where
  "SimpleEventEmitter_off event callback s =
     (case listeners s event of
        None \<Rightarrow> s
      | Some cbs \<Rightarrow> s\<lparr>listeners := (listeners s)(event \<mapsto> filter (\<lambda>cb. cb \<noteq> callback) cbs)\<rparr>)"

text \<open>The body of \<^verbatim>\<open>forEach\<close> in \<^verbatim>\<open>emit\<close>: one callback inside its own try/catch.\<close>

definition call_listener ::
  "(nat \<Rightarrow> jval list \<Rightarrow> 'w \<Rightarrow> 'w outcome) \<Rightarrow> jval list \<Rightarrow> nat \<Rightarrow>
   'w SimpleEventEmitter \<Rightarrow> 'w SimpleEventEmitter" where
  "call_listener run args callback s =
     (case run callback args (subscribers s) of
        Returns w \<Rightarrow> s\<lparr>subscribers := w\<rparr>
      | Throws w \<Rightarrow> s\<lparr>subscribers := w, emitter_console := emitter_console s @ [Error]\<rparr>)"

fun forEach_listener ::
  "(nat \<Rightarrow> jval list \<Rightarrow> 'w \<Rightarrow> 'w outcome) \<Rightarrow> jval list \<Rightarrow> nat list \<Rightarrow>
   'w SimpleEventEmitter \<Rightarrow> 'w SimpleEventEmitter" where
  "forEach_listener run args [] s = s"
| "forEach_listener run args (callback # cbs) s =
     forEach_listener run args cbs (call_listener run args callback s)"

definition SimpleEventEmitter_emit ::
  "(nat \<Rightarrow> jval list \<Rightarrow> 'w \<Rightarrow> 'w outcome) \<Rightarrow> string \<Rightarrow> jval list \<Rightarrow>
   'w SimpleEventEmitter \<Rightarrow> 'w SimpleEventEmitter" where
  "SimpleEventEmitter_emit run event args s =
     (case listeners s event of
        None \<Rightarrow> s
      | Some cbs \<Rightarrow> forEach_listener run args cbs s)"

definition removeAllListeners ::
  "string option \<Rightarrow> 'w SimpleEventEmitter \<Rightarrow> 'w SimpleEventEmitter" where
  "removeAllListeners event s =
     (case event of
        Some e \<Rightarrow>
          if e \<noteq> [] then s\<lparr>listeners := (listeners s)(e := None)\<rparr>
          else s\<lparr>listeners := Map.empty\<rparr>
      | None \<Rightarrow> s\<lparr>listeners := Map.empty\<rparr>)"

text \<open>
  For stating what \<^verbatim>\<open>emit\<close> does: the subscribers' state after every callback of a list
  has run in turn, whether it returned or threw, and the number of them that threw.
\<close>

definition after_call :: "'w outcome \<Rightarrow> 'w" where
  "after_call r = (case r of Returns w \<Rightarrow> w | Throws w \<Rightarrow> w)"

definition threw :: "'w outcome \<Rightarrow> bool" where
  "threw r = (case r of Returns w \<Rightarrow> False | Throws w \<Rightarrow> True)"

fun run_all :: "(nat \<Rightarrow> jval list \<Rightarrow> 'w \<Rightarrow> 'w outcome) \<Rightarrow> jval list \<Rightarrow> nat list \<Rightarrow> 'w \<Rightarrow> 'w" where
  "run_all run args [] w = w"
| "run_all run args (cb # cbs) w = run_all run args cbs (after_call (run cb args w))"

fun count_thrown :: "(nat \<Rightarrow> jval list \<Rightarrow> 'w \<Rightarrow> 'w outcome) \<Rightarrow> jval list \<Rightarrow> nat list \<Rightarrow> 'w \<Rightarrow> nat" where
  "count_thrown run args [] w = 0"
| "count_thrown run args (cb # cbs) w =
     (if threw (run cb args w) then 1 else 0) + count_thrown run args cbs (after_call (run cb args w))"

text \<open>
  A concrete set of subscribers for the examples: the subscribers' state is the list of
  the callbacks entered so far; callback 2 throws after it has been entered.
\<close>

definition tracing :: "nat \<Rightarrow> jval list \<Rightarrow> nat list \<Rightarrow> nat list outcome" where
  "tracing cb args w = (if cb = 2 then Throws (w @ [cb]) else Returns (w @ [cb]))"

definition three_listeners :: "nat list SimpleEventEmitter" where
  "three_listeners =
     SimpleEventEmitter_on ''progress'' 3
       (SimpleEventEmitter_on ''progress'' 2
         (SimpleEventEmitter_on ''progress'' 1
           \<lparr>listeners = Map.empty, emitter_console = [], subscribers = []\<rparr>))"

section \<open>What the three services share\<close>

text \<open>
  The fields that \<^verbatim>\<open>RobustWebSocketService\<close> (src/services/websocket_robust.ts),
  \<^verbatim>\<open>WebSocketService\<close> (src/services/websocket_fixed.ts) and
  \<^verbatim>\<open>EnhancedWebSocketService\<close> (src/types/index.ts) all declare. \<open>ws\<close> is the socket
  the service holds, with the \<^verbatim>\<open>readyState\<close> the browser gives it; \<open>reconnectTimer\<close> is
  the id of the timer returned by \<^verbatim>\<open>setTimeout\<close>.

  The services emit their events through an event emitter. The definitions of this
  section and of the three that follow describe a service whose listeners return: they
  record each emitted event in \<open>emitted\<close> and go on. That is what \<^verbatim>\<open>SimpleEventEmitter\<close>
  guarantees to \<^verbatim>\<open>EnhancedWebSocketService\<close>. The other two classes extend the
  \<^verbatim>\<open>EventEmitter\<close> of the \<^verbatim>\<open>events\<close> package, whose \<^verbatim>\<open>emit\<close> can throw; the section on
  exceptions from the emitter gives the methods of \<^verbatim>\<open>RobustWebSocketService\<close> in which
  that matters with the exception as a result, and shows that they agree with the
  definitions here whenever the emitter returns.

  The texts of log lines and of error objects are not modelled or are abridged. Timer ids
  are positive, as a browser's are, so a held id is truthy. The methods that only wrap
  \<^verbatim>\<open>send\<close> (\<^verbatim>\<open>notifyAnalysisStart\<close>, \<^verbatim>\<open>subscribeToChannel\<close>) and the getters are left
  out.
\<close>

record 'cb service = "'cb host" +
  ws :: "websocket option"
  reconnectInterval :: rat
  reconnectTimer :: "nat option"
  url :: string
  clientId :: string
  isConnecting :: bool

definition emit :: "string \<Rightarrow> jval list \<Rightarrow> ('cb, 'm) host_scheme \<Rightarrow> ('cb, 'm) host_scheme" where
  "emit event args s = s\<lparr>emitted := emitted s @ [(event, args)]\<rparr>"

text \<open>\<^verbatim>\<open>this.ws?.readyState === WebSocket.OPEN\<close>\<close>

definition ws_open :: "('cb, 'm) service_scheme \<Rightarrow> bool" where
  "ws_open s = (case ws s of None \<Rightarrow> False | Some w \<Rightarrow> readyState w = OPEN)"

text \<open>
  \<^verbatim>\<open>this.ws = new WebSocket(wsUrl)\<close>: \<open>None\<close> when the constructor throws, otherwise the
  state in which the service holds a fresh socket that is connecting.
\<close>

definition new_WebSocket :: "string \<Rightarrow> ('cb, 'm) service_scheme \<Rightarrow> ('cb, 'm) service_scheme option" where
  "new_WebSocket wsUrl s =
     (if WebSocket_throws s wsUrl then None
      else Some (s\<lparr>sockets_created := Suc (sockets_created s),
                   ws := Some \<lparr>sock_id = sockets_created s, sock_url = wsUrl, readyState = CONNECTING\<rparr>\<rparr>))"

text \<open>\<^verbatim>\<open>this.ws.send(JSON.stringify(message))\<close> once the serialisation has succeeded.\<close>

definition ws_send :: "obj \<Rightarrow> ('cb, 'm) service_scheme \<Rightarrow> ('cb, 'm) service_scheme" where
  "ws_send message s =
     (case ws s of None \<Rightarrow> s | Some w \<Rightarrow> s\<lparr>wire := wire s @ [(sock_id w, message)]\<rparr>)"

text \<open>\<^verbatim>\<open>if (this.ws) { this.ws.close(1000, reason); this.ws = null; }\<close>\<close>

definition close_and_drop :: "string \<Rightarrow> ('cb, 'm) service_scheme \<Rightarrow> ('cb, 'm) service_scheme" where
  "close_and_drop reason s =
     (case ws s of
        None \<Rightarrow> s
      | Some w \<Rightarrow> s\<lparr>close_calls := close_calls s @ [(sock_id w, 1000, reason)], ws := None\<rparr>)"

text \<open>\<^verbatim>\<open>clearReconnectTimer\<close> is the same in the three classes.\<close>

definition clearReconnectTimer :: "('cb, 'm) service_scheme \<Rightarrow> ('cb, 'm) service_scheme" where
  "clearReconnectTimer s =
     (case reconnectTimer s of
        None \<Rightarrow> s
      | Some t \<Rightarrow> (clearTimeout t s)\<lparr>reconnectTimer := None\<rparr>)"

text \<open>The browser changes the \<^verbatim>\<open>readyState\<close> of the socket the service holds.\<close>

definition set_readyState :: "readyState \<Rightarrow> ('cb, 'm) service_scheme \<Rightarrow> ('cb, 'm) service_scheme" where
  "set_readyState r s = s\<lparr>ws := map_option (\<lambda>w. w\<lparr>readyState := r\<rparr>) (ws s)\<rparr>"

text \<open>The object \<^verbatim>\<open>{...data, timestamp: t}\<close> and its extension by \<^verbatim>\<open>client_id\<close>.\<close>

definition with_timestamp :: "string \<Rightarrow> obj \<Rightarrow> obj" where
  "with_timestamp t data = AList.update ''timestamp'' (JStr t) data"

definition with_client_id :: "string \<Rightarrow> obj \<Rightarrow> obj" where
  "with_client_id c message = AList.update ''client_id'' (JStr c) message"

text \<open>The fields of \<^verbatim>\<open>RobustWebSocketService\<close> and \<^verbatim>\<open>EnhancedWebSocketService\<close> alone.\<close>

record 'cb reconnecting = "'cb service" +
  maxReconnectAttempts :: nat
  reconnectAttempts :: nat
  pingTimer :: "nat option"
  shouldReconnect :: bool

text \<open>\<^verbatim>\<open>stopPingInterval\<close> is the same in both.\<close>

definition stopPingInterval :: "('cb, 'm) reconnecting_scheme \<Rightarrow> ('cb, 'm) reconnecting_scheme" where
  "stopPingInterval s =
     (case pingTimer s of
        None \<Rightarrow> s
      | Some t \<Rightarrow> (clearTimeout t s)\<lparr>pingTimer := None\<rparr>)"

section \<open>RobustWebSocketService (src/services/websocket_robust.ts)\<close>

text \<open>
  The callbacks this class hands to \<^verbatim>\<open>setTimeout\<close> and \<^verbatim>\<open>setInterval\<close>: the one of
  \<^verbatim>\<open>scheduleReconnect\<close>, the heartbeat, the one of \<^verbatim>\<open>forceReconnect\<close> and the
  time-out of \<^verbatim>\<open>testConnection\<close>.
\<close>

datatype Robust_timer = Robust_reconnect | Robust_ping | Robust_force_connect | Robust_test_timeout

record Robust = "Robust_timer reconnecting" +
  maxReconnectInterval :: rat
  reconnectDecay :: rat
  channels :: "string list"

text \<open>
  The constructor. The base address and the client identity it computes from the page and
  the clock are parameters, as is the behaviour of the \<^verbatim>\<open>WebSocket\<close> constructor.
\<close>

definition Robust_new :: "string \<Rightarrow> string \<Rightarrow> (string \<Rightarrow> bool) \<Rightarrow> Robust" where
  "Robust_new base cid throws =
     \<lparr>clock = [], WebSocket_throws = throws, sockets_created = 0, wire = [], close_calls = [],
      timers = [], next_timer = 1, console = [Log, Log, Log], emitted = [],
      ws = None, reconnectInterval = 3000, reconnectTimer = None, url = base, clientId = cid,
      isConnecting = False,
      maxReconnectAttempts = 10, reconnectAttempts = 0, pingTimer = None, shouldReconnect = True,
      maxReconnectInterval = 30000, reconnectDecay = 3 / 2, channels = []\<rparr>"

definition Robust_scheduleReconnect :: "Robust \<Rightarrow> Robust" where
  "Robust_scheduleReconnect s =
     (if reconnectAttempts s \<ge> maxReconnectAttempts s
      then emit ''maxReconnectAttemptsReached'' [] (console_error s)
      else
        let s1 = clearReconnectTimer s;
            currentInterval =
              Math_min (reconnectInterval s1 * Math_pow (reconnectDecay s1) (int (reconnectAttempts s1)))
                       (maxReconnectInterval s1);
            s2 = console_log s1
        in (add_timer Timeout Robust_reconnect currentInterval s2)\<lparr>reconnectTimer := Some (next_timer s2)\<rparr>)"

definition Robust_connect :: "string list \<Rightarrow> Robust \<Rightarrow> Robust" where
  "Robust_connect chs s =
     (if isConnecting s then console_log s
      else if ws_open s then console_log s
      else
        let s1 = s\<lparr>isConnecting := True, channels := chs, shouldReconnect := True\<rparr>;
            wsUrl = url s1 @ ''/'' @ clientId s1 @ ''?channels='' @ join '','' chs;
            s2 = console_log (console_log (console_log s1))
        in case new_WebSocket wsUrl s2 of
             Some s3 \<Rightarrow> s3
           | None \<Rightarrow>
               Robust_scheduleReconnect
                 (emit ''error'' [JError ''WebSocket constructor''] ((console_error s2)\<lparr>isConnecting := False\<rparr>)))"

definition Robust_send :: "obj \<Rightarrow> Robust \<Rightarrow> bool \<times> Robust" where
  "Robust_send data s =
     (if ws_open s then
        let message = with_client_id (clientId s) (with_timestamp (clock s) data)
        in if stringify_throws (JObj message)
           then (False, emit ''error'' [JError ''JSON.stringify''] (console_error s))
           else (True, console_log (ws_send message s))
      else
        let s1 = console_error s
        in if shouldReconnect s1 \<and> \<not> isConnecting s1
           then (False, Robust_connect (channels s1) (console_log s1))
           else (False, s1))"

definition Robust_startPingInterval :: "Robust \<Rightarrow> Robust" where
  "Robust_startPingInterval s =
     (let s1 = stopPingInterval s
      in (add_timer Interval Robust_ping 30000 s1)\<lparr>pingTimer := Some (next_timer s1)\<rparr>)"

definition Robust_onopen :: "Robust \<Rightarrow> Robust" where
  "Robust_onopen s =
     (let s1 = (console_log s)\<lparr>isConnecting := False, reconnectAttempts := 0, reconnectInterval := 3000\<rparr>;
          s2 = emit ''connected'' [] s1;
          s3 = clearReconnectTimer s2;
          s4 = Robust_startPingInterval s3
      in snd (Robust_send [(''type'', JStr ''ping''), (''message'', JStr ''Connection established'')] s4))"

definition Robust_handleMessage :: "jval \<Rightarrow> Robust \<Rightarrow> Robust" where
  "Robust_handleMessage data s =
     (let t = js_member data ''type'' in
      if t = JStr ''progress'' then emit ''progress'' [js_member data ''data''] s
      else if t = JStr ''result'' then emit ''result'' [js_member data ''data''] s
      else if t = JStr ''complete'' then emit ''complete'' [js_member data ''data''] (console_log s)
      else if t = JStr ''error'' then
        emit ''serverError'' [js_or (js_member data ''error'') (js_member data ''message'')]
          (console_error s)
      else if t = JStr ''alert'' then emit ''alert'' [js_member data ''data''] s
      else if t = JStr ''notification'' then emit ''notification'' [js_member data ''data''] s
      else if t = JStr ''connection_established'' \<or> t = JStr ''ready'' then
        emit ''ready'' [data] (console_log s)
      else if t = JStr ''pong'' then console_log s
      else emit ''message'' [data] (console_warn s))"

text \<open>
  \<^verbatim>\<open>onmessage\<close>. \<open>JSON_parse\<close> is the browser's parser: \<open>None\<close> when it throws. A frame
  that parses to \<^verbatim>\<open>null\<close> makes \<^verbatim>\<open>data.type\<close> throw inside the same \<^verbatim>\<open>try\<close>, before
  \<^verbatim>\<open>console.log\<close> is called with it.
\<close>

definition Robust_onmessage :: "(string \<Rightarrow> jval option) \<Rightarrow> string \<Rightarrow> Robust \<Rightarrow> Robust" where
  "Robust_onmessage JSON_parse text s =
     (case JSON_parse text of
        None \<Rightarrow> console_log (console_error s)
      | Some data \<Rightarrow>
          if data = JNull \<or> data = JUndefined then console_log (console_error s)
          else Robust_handleMessage data (console_log s))"

definition Robust_onerror :: "Robust \<Rightarrow> Robust" where
  "Robust_onerror s =
     (let s1 = (console_error (console_error s))\<lparr>isConnecting := False\<rparr>;
          s2 = emit ''error''
                 [JObj [(''message'', JStr ''WebSocket error''),
                        (''reconnectAttempts'', JNum (int (reconnectAttempts s1)))] ] s1
      in if shouldReconnect s2 then Robust_scheduleReconnect s2 else s2)"

definition Robust_onclose :: "nat \<Rightarrow> Robust \<Rightarrow> Robust" where
  "Robust_onclose code s =
     (let s1 = (console_log s)\<lparr>isConnecting := False\<rparr>;
          s2 = stopPingInterval s1;
          s3 = emit ''disconnected'' [JObj [(''code'', JNum (int code))] ] s2
      in if shouldReconnect s3 \<and> code \<noteq> 1000
         then Robust_scheduleReconnect (console_log s3)
         else s3)"

text \<open>The callback handed to \<^verbatim>\<open>setTimeout\<close> in \<^verbatim>\<open>scheduleReconnect\<close>.\<close>

definition Robust_reconnect_callback :: "Robust \<Rightarrow> Robust" where
  "Robust_reconnect_callback s =
     (if shouldReconnect s
      then (let s1 = console_log (s\<lparr>reconnectAttempts := Suc (reconnectAttempts s)\<rparr>)
            in Robust_connect (channels s1) s1)
      else s)"

text \<open>The callback handed to \<^verbatim>\<open>setInterval\<close> in \<^verbatim>\<open>startPingInterval\<close>.\<close>

definition Robust_ping_callback :: "Robust \<Rightarrow> Robust" where
  "Robust_ping_callback s =
     (if ws_open s
      then snd (Robust_send [(''type'', JStr ''ping''), (''timestamp'', JStr (clock s))] s)
      else stopPingInterval (console_warn s))"

definition Robust_disconnect :: "Robust \<Rightarrow> Robust" where
  "Robust_disconnect s =
     (let s1 = (console_log s)\<lparr>shouldReconnect := False\<rparr>;
          s2 = clearReconnectTimer s1;
          s3 = stopPingInterval s2;
          s4 = close_and_drop ''Normal closure by client'' s3
      in s4\<lparr>isConnecting := False, reconnectAttempts := 0\<rparr>)"

text \<open>
  \<^verbatim>\<open>forceReconnect\<close> keeps the id of the timer it sets in no field. Its callback is
  \<^verbatim>\<open>this.connect(this.channels)\<close>.
\<close>

definition Robust_forceReconnect :: "Robust \<Rightarrow> Robust" where
  "Robust_forceReconnect s =
     add_timer Timeout Robust_force_connect 1000 (Robust_disconnect (console_log s))"

definition Robust_force_connect_callback :: "Robust \<Rightarrow> Robust" where
  "Robust_force_connect_callback s = Robust_connect (channels s) s"

text \<open>
  \<^verbatim>\<open>testConnection\<close>: the promise it returns and the two listeners it registers with
  \<^verbatim>\<open>once\<close> are outside the state; what it does to the service is to call
  \<^verbatim>\<open>connect(this.channels)\<close> and to set a timer of ten seconds, whose callback removes the
  listeners and settles the promise.
\<close>

definition Robust_testConnection :: "Robust \<Rightarrow> Robust" where
  "Robust_testConnection s =
     (if ws_open s then s
      else add_timer Timeout Robust_test_timeout 10000 (Robust_connect (channels s) s))"

text \<open>
  The browser runs a pending timer: a timeout leaves the table when it fires, an interval
  stays. A timer that is not pending does not fire.
\<close>

definition Robust_fire :: "nat \<Rightarrow> Robust \<Rightarrow> Robust" where
  "Robust_fire tid s =
     (case find (\<lambda>t. fst t = tid) (timers s) of
        None \<Rightarrow> s
      | Some (i, k, cb, d) \<Rightarrow>
          (let s1 = (if k = Timeout then clearTimeout tid s else s)
           in (case cb of
                 Robust_reconnect \<Rightarrow> Robust_reconnect_callback s1
               | Robust_ping \<Rightarrow> Robust_ping_callback s1
               | Robust_force_connect \<Rightarrow> Robust_force_connect_callback s1
               | Robust_test_timeout \<Rightarrow> s1)))"

text \<open>The socket the service holds opens, or closes with a code.\<close>

definition Robust_socket_opens :: "Robust \<Rightarrow> Robust" where
  "Robust_socket_opens s = Robust_onopen (set_readyState OPEN s)"

definition Robust_socket_closes :: "nat \<Rightarrow> Robust \<Rightarrow> Robust" where
  "Robust_socket_closes code s = Robust_onclose code (set_readyState CLOSED s)"






section \<open>WebSocketService (src/services/websocket_fixed.ts)\<close>

text \<open>
  The handlers this class installs on a socket capture the channel list of the
  \<^verbatim>\<open>connect\<close> call that created the socket; so do its timer callbacks. The handlers
  take that list as an argument.
\<close>

datatype Fixed_timer = Fixed_reconnect "string list" | Fixed_deferred_error string "string list"

record Fixed = "Fixed_timer service" +
  maxRetryAttempts :: nat
  retryCount :: nat

definition Fixed_new :: "string \<Rightarrow> string \<Rightarrow> (string \<Rightarrow> bool) \<Rightarrow> Fixed" where
  "Fixed_new base cid throws =
     \<lparr>clock = [], WebSocket_throws = throws, sockets_created = 0, wire = [], close_calls = [],
      timers = [], next_timer = 1, console = [], emitted = [],
      ws = None, reconnectInterval = 5000, reconnectTimer = None, url = base, clientId = cid,
      isConnecting = False,
      maxRetryAttempts = 3, retryCount = 0\<rparr>"

text \<open>
  The constructor registers a listener for \<^verbatim>\<open>error\<close> that writes to the console, so
  every \<^verbatim>\<open>error\<close> event this class emits also logs.
\<close>

definition Fixed_emit :: "string \<Rightarrow> jval list \<Rightarrow> Fixed \<Rightarrow> Fixed" where
  "Fixed_emit event args s =
     (let s1 = emit event args s in if event = ''error'' then console_error s1 else s1)"

definition Fixed_scheduleReconnect :: "string list \<Rightarrow> Fixed \<Rightarrow> Fixed" where
  "Fixed_scheduleReconnect chs s =
     (let s1 = clearReconnectTimer s;
          delay = reconnectInterval s1 * Math_pow 2 (int (retryCount s1) - 1);
          s2 = console_log s1
      in (add_timer Timeout (Fixed_reconnect chs) delay s2)\<lparr>reconnectTimer := Some (next_timer s2)\<rparr>)"

definition Fixed_handleConnectionError :: "string \<Rightarrow> string list \<Rightarrow> Fixed \<Rightarrow> Fixed" where
  "Fixed_handleConnectionError message chs s =
     (let s1 = s\<lparr>isConnecting := False, retryCount := Suc (retryCount s)\<rparr>;
          s2 = console_error s1;
          s3 = Fixed_emit ''error''
                 [JObj [(''message'', JStr message), (''type'', JStr ''connection_error''),
                        (''attempt'', JNum (int (retryCount s2))),
                        (''maxAttempts'', JNum (int (maxRetryAttempts s2))),
                        (''timestamp'', JStr (clock s2))] ] s2
      in if retryCount s3 < maxRetryAttempts s3 then Fixed_scheduleReconnect chs s3 else s3)"

definition Fixed_connect :: "string list \<Rightarrow> Fixed \<Rightarrow> Fixed" where
  "Fixed_connect chs s =
     (if isConnecting s \<or> ws_open s then console_log s
      else
        let s1 = s\<lparr>isConnecting := True\<rparr>;
            wsUrl = url s1 @ ''/'' @ clientId s1 @ ''?channels='' @ join '','' chs;
            s2 = console_log s1
        in case new_WebSocket wsUrl s2 of
             Some s3 \<Rightarrow> s3
           | None \<Rightarrow> Fixed_handleConnectionError ''WebSocket creation failed'' chs (console_error s2))"

definition Fixed_send :: "obj \<Rightarrow> Fixed \<Rightarrow> bool \<times> Fixed" where
  "Fixed_send data s =
     (if ws_open s then
        let message = with_timestamp (clock s) data
        in if stringify_throws (JObj message)
           then (False, console_error s)
           else (True, console_log (ws_send message s))
      else (False, console_error s))"

definition Fixed_onopen :: "Fixed \<Rightarrow> Fixed" where
  "Fixed_onopen s =
     (let s1 = (console_log s)\<lparr>isConnecting := False, retryCount := 0\<rparr>;
          s2 = Fixed_emit ''connected'' [] s1;
          s3 = clearReconnectTimer s2
      in snd (Fixed_send [(''type'', JStr ''ping''), (''timestamp'', JStr (clock s3))] s3))"

definition Fixed_handleMessage :: "jval \<Rightarrow> Fixed \<Rightarrow> Fixed" where
  "Fixed_handleMessage data s =
     (let t = js_member data ''type'' in
      if t = JStr ''progress'' then Fixed_emit ''progress'' [js_member data ''data''] s
      else if t = JStr ''result'' then Fixed_emit ''result'' [js_member data ''data''] s
      else if t = JStr ''complete'' then Fixed_emit ''complete'' [js_member data ''data''] s
      else if t = JStr ''error'' then
        Fixed_emit ''error''
          [JObj [(''message'', js_member data ''error''), (''type'', JStr ''server_error'')] ] s
      else if t = JStr ''alert'' then Fixed_emit ''alert'' [js_member data ''data''] s
      else if t = JStr ''notification'' then Fixed_emit ''notification'' [js_member data ''data''] s
      else if t = JStr ''connection_established'' \<or> t = JStr ''pong'' then console_log s
      else console_warn s)"

text \<open>
  \<^verbatim>\<open>onmessage\<close>: here the log line does not read \<^verbatim>\<open>data.type\<close>, so a frame that parses
  to \<^verbatim>\<open>null\<close> is logged before the \<^verbatim>\<open>switch\<close> throws.
\<close>

definition Fixed_onmessage :: "(string \<Rightarrow> jval option) \<Rightarrow> string \<Rightarrow> Fixed \<Rightarrow> Fixed" where
  "Fixed_onmessage JSON_parse text s =
     (case JSON_parse text of
        None \<Rightarrow> console_error s
      | Some data \<Rightarrow>
          let s1 = console_log s
          in if data = JNull \<or> data = JUndefined then console_error s1 else Fixed_handleMessage data s1)"

definition Fixed_onerror :: "string list \<Rightarrow> Fixed \<Rightarrow> Fixed" where
  "Fixed_onerror chs s =
     add_timer Timeout (Fixed_deferred_error ''WebSocket connection error'' chs) 0 (console_error s)"

definition Fixed_onclose :: "string list \<Rightarrow> nat \<Rightarrow> Fixed \<Rightarrow> Fixed" where
  "Fixed_onclose chs code s =
     (let s1 = (console_log s)\<lparr>isConnecting := False\<rparr>;
          s2 = Fixed_emit ''disconnected'' [] s1
      in if code \<noteq> 1000 \<and> retryCount s2 < maxRetryAttempts s2 then Fixed_scheduleReconnect chs s2
         else if retryCount s2 \<ge> maxRetryAttempts s2
         then Fixed_emit ''maxRetriesReached'' [] (console_error s2)
         else s2)"

text \<open>The callback handed to \<^verbatim>\<open>setTimeout\<close> in \<^verbatim>\<open>scheduleReconnect\<close>.\<close>

definition Fixed_reconnect_callback :: "string list \<Rightarrow> Fixed \<Rightarrow> Fixed" where
  "Fixed_reconnect_callback chs s =
     (if retryCount s < maxRetryAttempts s then Fixed_connect chs (console_log s) else s)"

definition Fixed_disconnect :: "Fixed \<Rightarrow> Fixed" where
  "Fixed_disconnect s =
     (let s1 = console_log s;
          s2 = clearReconnectTimer s1;
          s3 = s2\<lparr>retryCount := maxRetryAttempts s2\<rparr>;
          s4 = close_and_drop ''Normal closure'' s3
      in s4\<lparr>isConnecting := False\<rparr>)"

definition Fixed_resetRetryCount :: "Fixed \<Rightarrow> Fixed" where
  "Fixed_resetRetryCount s = s\<lparr>retryCount := 0\<rparr>"

definition Fixed_fire :: "nat \<Rightarrow> Fixed \<Rightarrow> Fixed" where
  "Fixed_fire tid s =
     (case find (\<lambda>t. fst t = tid) (timers s) of
        None \<Rightarrow> s
      | Some (i, k, cb, d) \<Rightarrow>
          (let s1 = (if k = Timeout then clearTimeout tid s else s)
           in (case cb of
                 Fixed_reconnect chs \<Rightarrow> Fixed_reconnect_callback chs s1
               | Fixed_deferred_error message chs \<Rightarrow> Fixed_handleConnectionError message chs s1)))"

definition Fixed_socket_opens :: "Fixed \<Rightarrow> Fixed" where
  "Fixed_socket_opens s = Fixed_onopen (set_readyState OPEN s)"

definition Fixed_socket_closes :: "string list \<Rightarrow> nat \<Rightarrow> Fixed \<Rightarrow> Fixed" where
  "Fixed_socket_closes chs code s = Fixed_onclose chs code (set_readyState CLOSED s)"

definition Fixed_is_reconnect :: "Fixed_timer \<Rightarrow> bool" where
  "Fixed_is_reconnect cb = (case cb of Fixed_reconnect chs \<Rightarrow> True | Fixed_deferred_error m chs \<Rightarrow> False)"

definition Fixed_scheduled_delays :: "Fixed \<Rightarrow> rat list" where
  "Fixed_scheduled_delays s = map (\<lambda>t. snd (snd (snd t))) (pending Fixed_is_reconnect s)"

section \<open>EnhancedWebSocketService (src/types/index.ts)\<close>

datatype Enhanced_timer = Enhanced_reconnect | Enhanced_ping

record Enhanced = "Enhanced_timer reconnecting" +
  currentChannels :: "string list"

definition Enhanced_new :: "string \<Rightarrow> string \<Rightarrow> (string \<Rightarrow> bool) \<Rightarrow> Enhanced" where
  "Enhanced_new base cid throws =
     \<lparr>clock = [], WebSocket_throws = throws, sockets_created = 0, wire = [], close_calls = [],
      timers = [], next_timer = 1, console = [], emitted = [],
      ws = None, reconnectInterval = 5000, reconnectTimer = None, url = base, clientId = cid,
      isConnecting = False,
      maxReconnectAttempts = 10, reconnectAttempts = 0, pingTimer = None, shouldReconnect = True,
      currentChannels = []\<rparr>"

text \<open>
  The module registers a listener for \<^verbatim>\<open>error\<close> on the instance it exports, which
  writes to the console. The emitter is \<^verbatim>\<open>SimpleEventEmitter\<close>, whose \<^verbatim>\<open>emit\<close> returns
  whatever the listeners do.
\<close>

definition Enhanced_emit :: "string \<Rightarrow> jval list \<Rightarrow> Enhanced \<Rightarrow> Enhanced" where
  "Enhanced_emit event args s =
     (let s1 = emit event args s in if event = ''error'' then console_error s1 else s1)"

definition Enhanced_handleReconnection :: "Enhanced \<Rightarrow> Enhanced" where
  "Enhanced_handleReconnection s =
     (if \<not> shouldReconnect s \<or> reconnectAttempts s \<ge> maxReconnectAttempts s
      then Enhanced_emit ''maxReconnectAttemptsReached'' [] (console_log s)
      else
        let s1 = clearReconnectTimer s;
            s2 = s1\<lparr>reconnectAttempts := Suc (reconnectAttempts s1)\<rparr>;
            delay = Math_min (reconnectInterval s2 * Math_pow (3 / 2) (int (reconnectAttempts s2) - 1)) 30000;
            s3 = console_log s2
        in (add_timer Timeout Enhanced_reconnect delay s3)\<lparr>reconnectTimer := Some (next_timer s3)\<rparr>)"

definition Enhanced_connect :: "string list \<Rightarrow> Enhanced \<Rightarrow> Enhanced" where
  "Enhanced_connect chs s =
     (if isConnecting s \<or> ws_open s then console_log s
      else
        let s1 = s\<lparr>isConnecting := True, currentChannels := chs, shouldReconnect := True\<rparr>;
            wsUrl = url s1 @ ''/'' @ clientId s1 @ ''?channels='' @ join '','' chs;
            s2 = console_log (console_log (console_log s1))
        in case new_WebSocket wsUrl s2 of
             Some s3 \<Rightarrow> s3
           | None \<Rightarrow> Enhanced_handleReconnection ((console_error s2)\<lparr>isConnecting := False\<rparr>))"

definition Enhanced_send :: "obj \<Rightarrow> Enhanced \<Rightarrow> bool \<times> Enhanced" where
  "Enhanced_send data s =
     (if ws_open s then
        let message = with_client_id (clientId s) (with_timestamp (clock s) data)
        in if stringify_throws (JObj message)
           then (False, Enhanced_emit ''error'' [JError ''JSON.stringify''] (console_error s))
           else (True, console_log (ws_send message s))
      else (False, Enhanced_emit ''error'' [JError ''WebSocket not connected''] (console_error s)))"

definition Enhanced_ping_callback :: "Enhanced \<Rightarrow> Enhanced" where
  "Enhanced_ping_callback s = snd (Enhanced_send [(''type'', JStr ''ping'')] s)"

definition Enhanced_startPingInterval :: "Enhanced \<Rightarrow> Enhanced" where
  "Enhanced_startPingInterval s =
     (let s1 = stopPingInterval s
      in (add_timer Interval Enhanced_ping 30000 s1)\<lparr>pingTimer := Some (next_timer s1)\<rparr>)"

definition Enhanced_onopen :: "Enhanced \<Rightarrow> Enhanced" where
  "Enhanced_onopen s =
     (let s1 = (console_log s)\<lparr>isConnecting := False, reconnectAttempts := 0\<rparr>;
          s2 = Enhanced_emit ''connected''
                 [JObj [(''clientId'', JStr (clientId s1)),
                        (''channels'', JArr (map JStr (currentChannels s1)))] ] s1;
          s3 = clearReconnectTimer s2
      in Enhanced_startPingInterval s3)"

definition Enhanced_handleMessage :: "jval \<Rightarrow> Enhanced \<Rightarrow> Enhanced" where
  "Enhanced_handleMessage data s =
     (let t = js_member data ''type'' in
      if t = JStr ''ready'' then Enhanced_emit ''ready'' [data] (console_log s)
      else if t = JStr ''connection'' then Enhanced_emit ''connected'' [data] (console_log s)
      else if t = JStr ''progress'' then Enhanced_emit ''progress'' [js_member data ''data''] s
      else if t = JStr ''result'' then Enhanced_emit ''result'' [js_member data ''data''] s
      else if t = JStr ''complete'' then Enhanced_emit ''complete'' [js_or (js_member data ''data'') data] s
      else if t = JStr ''error'' then
        Enhanced_emit ''serverError'' [js_or (js_member data ''error'') (js_member data ''message'')]
          (console_error s)
      else if t = JStr ''alert'' then Enhanced_emit ''alert'' [js_or (js_member data ''data'') data] s
      else if t = JStr ''notification'' then
        Enhanced_emit ''notification'' [js_or (js_member data ''data'') data] s
      else if t = JStr ''pong'' then console_log s
      else Enhanced_emit ''message'' [data] (console_warn s))"

definition Enhanced_onmessage :: "(string \<Rightarrow> jval option) \<Rightarrow> string \<Rightarrow> Enhanced \<Rightarrow> Enhanced" where
  "Enhanced_onmessage JSON_parse text s =
     (case JSON_parse text of
        None \<Rightarrow> Enhanced_emit ''error'' [JError ''Message parse error''] (console_error s)
      | Some data \<Rightarrow>
          let s1 = console_log s
          in if data = JNull \<or> data = JUndefined
             then Enhanced_emit ''error'' [JError ''Message parse error''] (console_error s1)
             else Enhanced_handleMessage data s1)"

definition Enhanced_onerror :: "Enhanced \<Rightarrow> Enhanced" where
  "Enhanced_onerror s =
     (let s1 = (console_error s)\<lparr>isConnecting := False\<rparr>;
          s2 = Enhanced_emit ''error'' [JError ''WebSocket connection error''] s1
      in if shouldReconnect s2 then Enhanced_handleReconnection s2 else s2)"

definition Enhanced_onclose :: "nat \<Rightarrow> Enhanced \<Rightarrow> Enhanced" where
  "Enhanced_onclose code s =
     (let s1 = (console_log s)\<lparr>isConnecting := False\<rparr>;
          s2 = stopPingInterval s1;
          s3 = Enhanced_emit ''disconnected'' [JObj [(''code'', JNum (int code))] ] s2
      in if shouldReconnect s3 \<and> code \<noteq> 1000 then Enhanced_handleReconnection s3 else s3)"

definition Enhanced_reconnect_callback :: "Enhanced \<Rightarrow> Enhanced" where
  "Enhanced_reconnect_callback s =
     (if shouldReconnect s then Enhanced_connect (currentChannels s) (console_log s) else s)"

definition Enhanced_disconnect :: "Enhanced \<Rightarrow> Enhanced" where
  "Enhanced_disconnect s =
     (let s1 = (console_log s)\<lparr>shouldReconnect := False\<rparr>;
          s2 = clearReconnectTimer s1;
          s3 = stopPingInterval s2;
          s4 = close_and_drop ''Normal closure'' s3
      in s4\<lparr>isConnecting := False, reconnectAttempts := 0\<rparr>)"

definition Enhanced_socket_opens :: "Enhanced \<Rightarrow> Enhanced" where
  "Enhanced_socket_opens s = Enhanced_onopen (set_readyState OPEN s)"

definition Enhanced_socket_closes :: "nat \<Rightarrow> Enhanced \<Rightarrow> Enhanced" where
  "Enhanced_socket_closes code s = Enhanced_onclose code (set_readyState CLOSED s)"

definition Enhanced_scheduled_delays :: "Enhanced \<Rightarrow> rat list" where
  "Enhanced_scheduled_delays s = map (\<lambda>t. snd (snd (snd t))) (pending (\<lambda>cb. cb = Enhanced_reconnect) s)"

section \<open>Exceptions from the event emitter\<close>

text \<open>
  \<^verbatim>\<open>RobustWebSocketService\<close> and \<^verbatim>\<open>WebSocketService\<close> extend the \<^verbatim>\<open>EventEmitter\<close> of
  the \<^verbatim>\<open>events\<close> package, which is not part of the repository. A method of the
  service sees of it only what a call of \<^verbatim>\<open>this.emit\<close> does: it runs the listeners, which
  act on the subscribers' own state, and then returns or throws. That is a parameter
  here, an \<open>emitter\<close>. A method ends by returning a value or by throwing, in both cases in
  the state it has reached.
\<close>

type_synonym 'w emitter = "string \<Rightarrow> jval list \<Rightarrow> 'w \<Rightarrow> 'w outcome"

datatype ('a, 's) js_result = Return 'a 's | Throw 's

definition js_state :: "('a, 's) js_result \<Rightarrow> 's" where
  "js_state r = (case r of Return v s \<Rightarrow> s | Throw s \<Rightarrow> s)"

text \<open>One statement after another: an exception skips what follows.\<close>

definition and_then :: "('a, 's) js_result \<Rightarrow> ('s \<Rightarrow> ('b, 's) js_result) \<Rightarrow> ('b, 's) js_result" where
  "and_then r f = (case r of Return v s \<Rightarrow> f s | Throw s \<Rightarrow> Throw s)"

text \<open>
  The \<^verbatim>\<open>emit\<close> of the \<^verbatim>\<open>events\<close> package as its documentation describes it: the
  listeners registered for the event are called in the order of their registration; an
  exception thrown by a listener leaves \<^verbatim>\<open>emit\<close> at once, so the listeners after it are
  not called; and \<^verbatim>\<open>emit('error', ...)\<close> throws when no listener is registered for
  \<^verbatim>\<open>error\<close>. \<open>registered\<close> is the registry and \<open>run\<close> what the callbacks do, as for
  \<^verbatim>\<open>SimpleEventEmitter\<close>.
\<close>

fun call_in_turn ::
  "(nat \<Rightarrow> jval list \<Rightarrow> 'w \<Rightarrow> 'w outcome) \<Rightarrow> jval list \<Rightarrow> nat list \<Rightarrow> 'w \<Rightarrow> 'w outcome" where
  "call_in_turn run args [] w = Returns w"
| "call_in_turn run args (cb # cbs) w =
     (case run cb args w of
        Returns w' \<Rightarrow> call_in_turn run args cbs w'
      | Throws w' \<Rightarrow> Throws w')"

definition EventEmitter_emit ::
  "(nat \<Rightarrow> jval list \<Rightarrow> 'w \<Rightarrow> 'w outcome) \<Rightarrow> (string \<rightharpoonup> nat list) \<Rightarrow> 'w emitter" where
  "EventEmitter_emit run registered event args w =
     (case registered event of
        None \<Rightarrow> if event = ''error'' then Throws w else Returns w
      | Some cbs \<Rightarrow>
          if cbs = [] \<and> event = ''error'' then Throws w else call_in_turn run args cbs w)"

text \<open>
  \<^verbatim>\<open>this.emit(event, ...args)\<close> inside a method: the call is recorded in \<open>emitted\<close>, and
  the emitter decides how it ends.
\<close>

definition emitE ::
  "'w emitter \<Rightarrow> string \<Rightarrow> jval list \<Rightarrow> ('cb, 'm) host_scheme \<times> 'w \<Rightarrow>
   (unit, ('cb, 'm) host_scheme \<times> 'w) js_result" where
  "emitE em event args sw =
     (case em event args (snd sw) of
        Returns w' \<Rightarrow> Return () (emit event args (fst sw), w')
      | Throws w' \<Rightarrow> Throw (emit event args (fst sw), w'))"

definition returning :: "'w emitter \<Rightarrow> bool" where
  "returning em \<longleftrightarrow> (\<forall>event args w. \<not> threw (em event args w))"

subsection \<open>RobustWebSocketService with its emitter\<close>

definition Robust_scheduleReconnectE ::
  "'w emitter \<Rightarrow> Robust \<times> 'w \<Rightarrow> (unit, Robust \<times> 'w) js_result" where
  "Robust_scheduleReconnectE em sw =
     (let s = fst sw in
      if reconnectAttempts s \<ge> maxReconnectAttempts s
      then emitE em ''maxReconnectAttemptsReached'' [] (console_error s, snd sw)
      else
        let s1 = clearReconnectTimer s;
            currentInterval =
              Math_min (reconnectInterval s1 * Math_pow (reconnectDecay s1) (int (reconnectAttempts s1)))
                       (maxReconnectInterval s1);
            s2 = console_log s1
        in Return ()
             ((add_timer Timeout Robust_reconnect currentInterval s2)\<lparr>reconnectTimer := Some (next_timer s2)\<rparr>,
              snd sw))"

text \<open>
  \<^verbatim>\<open>connect\<close>: the \<^verbatim>\<open>catch\<close> block calls \<^verbatim>\<open>this.emit('error', error)\<close> and then
  \<^verbatim>\<open>this.scheduleReconnect()\<close>; an exception from either leaves \<^verbatim>\<open>connect\<close>.
\<close>

definition Robust_connectE ::
  "'w emitter \<Rightarrow> string list \<Rightarrow> Robust \<times> 'w \<Rightarrow> (unit, Robust \<times> 'w) js_result" where
  "Robust_connectE em chs sw =
     (let s = fst sw in
      if isConnecting s then Return () (console_log s, snd sw)
      else if ws_open s then Return () (console_log s, snd sw)
      else
        let s1 = s\<lparr>isConnecting := True, channels := chs, shouldReconnect := True\<rparr>;
            wsUrl = url s1 @ ''/'' @ clientId s1 @ ''?channels='' @ join '','' chs;
            s2 = console_log (console_log (console_log s1))
        in case new_WebSocket wsUrl s2 of
             Some s3 \<Rightarrow> Return () (s3, snd sw)
           | None \<Rightarrow>
               and_then
                 (emitE em ''error'' [JError ''WebSocket constructor'']
                    ((console_error s2)\<lparr>isConnecting := False\<rparr>, snd sw))
                 (Robust_scheduleReconnectE em))"

text \<open>
  \<^verbatim>\<open>send\<close>: the \<^verbatim>\<open>emit\<close> in its \<^verbatim>\<open>catch\<close> block and the \<^verbatim>\<open>connect\<close> in its
  \<^verbatim>\<open>else\<close> branch are not inside a \<^verbatim>\<open>try\<close>, so what they throw leaves \<^verbatim>\<open>send\<close>.
\<close>

definition Robust_sendE ::
  "'w emitter \<Rightarrow> obj \<Rightarrow> Robust \<times> 'w \<Rightarrow> (bool, Robust \<times> 'w) js_result" where
  "Robust_sendE em data sw =
     (let s = fst sw in
      if ws_open s then
        let message = with_client_id (clientId s) (with_timestamp (clock s) data)
        in if stringify_throws (JObj message)
           then and_then (emitE em ''error'' [JError ''JSON.stringify''] (console_error s, snd sw))
                  (Return False)
           else Return True (console_log (ws_send message s), snd sw)
      else
        let s1 = console_error s
        in if shouldReconnect s1 \<and> \<not> isConnecting s1
           then and_then (Robust_connectE em (channels s1) (console_log s1, snd sw)) (Return False)
           else Return False (s1, snd sw))"

definition Robust_handleMessageE ::
  "'w emitter \<Rightarrow> jval \<Rightarrow> Robust \<times> 'w \<Rightarrow> (unit, Robust \<times> 'w) js_result" where
  "Robust_handleMessageE em data sw =
     (let s = fst sw; w = snd sw; t = js_member data ''type'' in
      if t = JStr ''progress'' then emitE em ''progress'' [js_member data ''data''] (s, w)
      else if t = JStr ''result'' then emitE em ''result'' [js_member data ''data''] (s, w)
      else if t = JStr ''complete'' then emitE em ''complete'' [js_member data ''data''] (console_log s, w)
      else if t = JStr ''error'' then
        emitE em ''serverError'' [js_or (js_member data ''error'') (js_member data ''message'')]
          (console_error s, w)
      else if t = JStr ''alert'' then emitE em ''alert'' [js_member data ''data''] (s, w)
      else if t = JStr ''notification'' then emitE em ''notification'' [js_member data ''data''] (s, w)
      else if t = JStr ''connection_established'' \<or> t = JStr ''ready'' then
        emitE em ''ready'' [data] (console_log s, w)
      else if t = JStr ''pong'' then Return () (console_log s, w)
      else emitE em ''message'' [data] (console_warn s, w))"

text \<open>
  \<^verbatim>\<open>onmessage\<close>: \<^verbatim>\<open>handleMessage\<close> is called inside the \<^verbatim>\<open>try\<close>, so the \<^verbatim>\<open>catch\<close>
  block, written for a frame that does not parse, also receives what a listener throws.
  The handler itself always returns.
\<close>

definition Robust_onmessageE ::
  "'w emitter \<Rightarrow> (string \<Rightarrow> jval option) \<Rightarrow> string \<Rightarrow> Robust \<times> 'w \<Rightarrow> Robust \<times> 'w" where
  "Robust_onmessageE em JSON_parse text sw =
     (case JSON_parse text of
        None \<Rightarrow> (console_log (console_error (fst sw)), snd sw)
      | Some data \<Rightarrow>
          if data = JNull \<or> data = JUndefined then (console_log (console_error (fst sw)), snd sw)
          else (case Robust_handleMessageE em data (console_log (fst sw), snd sw) of
                  Return u sw' \<Rightarrow> sw'
                | Throw sw' \<Rightarrow> (console_log (console_error (fst sw')), snd sw')))"

section \<open>Runs of a service\<close>

text \<open>
  What can happen to a service between two of its steps: a call of its public interface,
  a handler of a socket the service created being run (for the socket it holds, after the
  browser has changed that socket's \<^verbatim>\<open>readyState\<close>; for a socket it has dropped,
  without), a pending timer firing, the clock advancing. \<open>JSON_parse\<close> is the parser
  of the browser.
\<close>

datatype Robust_action =
    Robust_call_connect "string list"
  | Robust_call_disconnect
  | Robust_call_send obj
  | Robust_call_forceReconnect
  | Robust_call_testConnection
  | Robust_readyState readyState
  | Robust_event_open
  | Robust_event_message string
  | Robust_event_error
  | Robust_event_close nat
  | Robust_timer_fires nat
  | Robust_clock string

fun Robust_step :: "(string \<Rightarrow> jval option) \<Rightarrow> Robust_action \<Rightarrow> Robust \<Rightarrow> Robust" where
  "Robust_step JSON_parse (Robust_call_connect chs) s = Robust_connect chs s"
| "Robust_step JSON_parse Robust_call_disconnect s = Robust_disconnect s"
| "Robust_step JSON_parse (Robust_call_send data) s = snd (Robust_send data s)"
| "Robust_step JSON_parse Robust_call_forceReconnect s = Robust_forceReconnect s"
| "Robust_step JSON_parse Robust_call_testConnection s = Robust_testConnection s"
| "Robust_step JSON_parse (Robust_readyState r) s = set_readyState r s"
| "Robust_step JSON_parse Robust_event_open s = Robust_onopen s"
| "Robust_step JSON_parse (Robust_event_message text) s = Robust_onmessage JSON_parse text s"
| "Robust_step JSON_parse Robust_event_error s = Robust_onerror s"
| "Robust_step JSON_parse (Robust_event_close code) s = Robust_onclose code s"
| "Robust_step JSON_parse (Robust_timer_fires tid) s = Robust_fire tid s"
| "Robust_step JSON_parse (Robust_clock t) s = s\<lparr>clock := t\<rparr>"

datatype Fixed_action =
    Fixed_call_connect "string list"
  | Fixed_call_disconnect
  | Fixed_call_send obj
  | Fixed_call_resetRetryCount
  | Fixed_readyState readyState
  | Fixed_event_open
  | Fixed_event_message string
  | Fixed_event_error "string list"
  | Fixed_event_close "string list" nat
  | Fixed_timer_fires nat
  | Fixed_clock string

fun Fixed_step :: "(string \<Rightarrow> jval option) \<Rightarrow> Fixed_action \<Rightarrow> Fixed \<Rightarrow> Fixed" where
  "Fixed_step JSON_parse (Fixed_call_connect chs) s = Fixed_connect chs s"
| "Fixed_step JSON_parse Fixed_call_disconnect s = Fixed_disconnect s"
| "Fixed_step JSON_parse (Fixed_call_send data) s = snd (Fixed_send data s)"
| "Fixed_step JSON_parse Fixed_call_resetRetryCount s = Fixed_resetRetryCount s"
| "Fixed_step JSON_parse (Fixed_readyState r) s = set_readyState r s"
| "Fixed_step JSON_parse Fixed_event_open s = Fixed_onopen s"
| "Fixed_step JSON_parse (Fixed_event_message text) s = Fixed_onmessage JSON_parse text s"
| "Fixed_step JSON_parse (Fixed_event_error chs) s = Fixed_onerror chs s"
| "Fixed_step JSON_parse (Fixed_event_close chs code) s = Fixed_onclose chs code s"
| "Fixed_step JSON_parse (Fixed_timer_fires tid) s = Fixed_fire tid s"
| "Fixed_step JSON_parse (Fixed_clock t) s = s\<lparr>clock := t\<rparr>"

text \<open>
  The bookkeeping of the reconnect timer: the ids of the table are distinct and below the
  next id, and every pending timer whose callback is of the kind \<open>P\<close> (a reconnect, or
  a heartbeat) is the one whose id the service holds.
\<close>

definition tracked ::
  "('cb \<Rightarrow> bool) \<Rightarrow> (nat \<times> timer_kind \<times> 'cb \<times> rat) list \<Rightarrow> nat \<Rightarrow> nat option \<Rightarrow> bool" where
  "tracked P ts n r \<longleftrightarrow>
     (\<forall>t \<in> set ts. fst t < n) \<and> distinct (map fst ts)
   \<and> (\<forall>t \<in> set ts. P (fst (snd (snd t))) \<longrightarrow> r = Some (fst t))"

abbreviation Robust_one_timer :: "Robust \<Rightarrow> bool" where
  "Robust_one_timer s \<equiv>
     tracked (\<lambda>cb. cb = Robust_reconnect) (timers s) (next_timer s) (reconnectTimer s)"

abbreviation Robust_one_ping :: "Robust \<Rightarrow> bool" where
  "Robust_one_ping s \<equiv> tracked (\<lambda>cb. cb = Robust_ping) (timers s) (next_timer s) (pingTimer s)"

abbreviation Fixed_one_timer :: "Fixed \<Rightarrow> bool" where
  "Fixed_one_timer s \<equiv> tracked Fixed_is_reconnect (timers s) (next_timer s) (reconnectTimer s)"

section \<open>States and frames used in the examples\<close>

text \<open>A parser that rejects every text, and one that reads every text as the given value.\<close>

definition rejects :: "string \<Rightarrow> jval option" where
  "rejects text = None"

definition reads_as :: "jval \<Rightarrow> string \<Rightarrow> jval option" where
  "reads_as v text = Some v"

definition Robust_fresh :: Robust where
  "Robust_fresh = Robust_new ''ws://localhost:8002/ws'' ''airiss-1'' (\<lambda>u. False)"

definition Fixed_fresh :: Fixed where
  "Fixed_fresh = Fixed_new ''ws://localhost:8002/ws'' ''react-client-1'' (\<lambda>u. False)"

definition Enhanced_fresh :: Enhanced where
  "Enhanced_fresh = Enhanced_new ''ws://localhost:8002/ws'' ''react-client-1'' (\<lambda>u. False)"

text \<open>The services after \<^verbatim>\<open>connect()\<close> and the open event of the socket.\<close>

definition Robust_connected :: Robust where
  "Robust_connected = Robust_socket_opens (Robust_connect [''analysis'', ''alerts''] Robust_fresh)"

definition Fixed_connected :: Fixed where
  "Fixed_connected = Fixed_socket_opens (Fixed_connect [''analysis'', ''alerts''] Fixed_fresh)"

definition Enhanced_connected :: Enhanced where
  "Enhanced_connected = Enhanced_socket_opens (Enhanced_connect [''analysis'', ''alerts''] Enhanced_fresh)"

text \<open>The services after \<^verbatim>\<open>connect()\<close> and an abnormal closure: a reconnect timer is pending.\<close>

definition Robust_retry_pending :: Robust where
  "Robust_retry_pending = Robust_socket_closes 1006 (Robust_connect [''analysis''] Robust_fresh)"

definition Fixed_retry_pending :: Fixed where
  "Fixed_retry_pending = Fixed_socket_closes [''analysis''] 1006 (Fixed_connect [''analysis''] Fixed_fresh)"

text \<open>
  The services after \<^verbatim>\<open>connect()\<close>, \<^verbatim>\<open>disconnect()\<close>, \<^verbatim>\<open>connect()\<close> again, and the
  close event of the first socket, the one that \<^verbatim>\<open>disconnect()\<close> closed while it was
  connecting (a browser reports 1006 for it). The second socket has seen no event.
\<close>

definition Robust_second_attempt :: Robust where
  "Robust_second_attempt =
     fold (Robust_step rejects)
       [Robust_call_connect [''analysis''], Robust_call_disconnect,
        Robust_call_connect [''analysis''], Robust_event_close 1006]
       Robust_fresh"

definition Fixed_second_attempt :: Fixed where
  "Fixed_second_attempt =
     fold (Fixed_step rejects)
       [Fixed_call_connect [''analysis''], Fixed_call_disconnect,
        Fixed_call_connect [''analysis''], Fixed_event_close [''analysis''] 1006]
       Fixed_fresh"

text \<open>A connected service after \<^verbatim>\<open>forceReconnect()\<close>.\<close>

definition Robust_forced :: Robust where
  "Robust_forced = Robust_forceReconnect Robust_connected"

text \<open>A progress message as the server sends it.\<close>

definition progress_message :: jval where
  "progress_message =
     JObj [(''type'', JStr ''progress''),
           (''data'', JObj [(''processed'', JNum 5), (''total'', JNum 10)])]"

text \<open>The emitter of the \<^verbatim>\<open>events\<close> package with no listener registered.\<close>

definition no_listeners :: "nat list emitter" where
  "no_listeners = EventEmitter_emit tracing Map.empty"

text \<open>A fresh service for which the \<^verbatim>\<open>WebSocket\<close> constructor throws.\<close>

definition Robust_unreachable :: Robust where
  "Robust_unreachable = Robust_new ''ws://localhost:8002/ws'' ''airiss-1'' (\<lambda>u. True)"

definition ping :: obj where
  "ping = [(''type'', JStr ''ping'')]"

section \<open>Properties of SimpleEventEmitter\<close>

lemma forEach_listener_listeners:
  "listeners (forEach_listener run args cbs s) = listeners s"
  by (induction cbs arbitrary: s) (auto simp: call_listener_def split: outcome.splits)

lemma forEach_listener_subscribers:
  "subscribers (forEach_listener run args cbs s) = run_all run args cbs (subscribers s)"
  by (induction cbs arbitrary: s)
     (auto simp: call_listener_def after_call_def split: outcome.splits)

lemma forEach_listener_console:
  "emitter_console (forEach_listener run args cbs s) =
     emitter_console s @ replicate (count_thrown run args cbs (subscribers s)) Error"
proof (induction cbs arbitrary: s)
  case Nil
  show ?case by simp
next
  case (Cons cb cbs)
  show ?case
  proof (cases "run cb args (subscribers s)")
    case (Returns w)
    then show ?thesis
      using Cons.IH [of "call_listener run args cb s"]
      by (simp add: call_listener_def after_call_def threw_def)
  next
    case (Throws w)
    then show ?thesis
      using Cons.IH [of "call_listener run args cb s"]
      by (simp add: call_listener_def after_call_def threw_def replicate_app_Cons_same)
  qed
qed

text \<open>
  \<^verbatim>\<open>SimpleEventEmitter.emit\<close> runs every callback registered for the event, in
  registration order, whatever the callbacks before it did: the subscribers' state
  afterwards is the one reached by running all of them in turn. Each callback that
  throws adds exactly one \<^verbatim>\<open>console.error\<close> line and nothing else; the registry is
  unchanged, and \<^verbatim>\<open>emit\<close> itself returns (it is a total function of the state).
\<close>

lemma SimpleEventEmitter_emit_isolates:
  "listeners s event = Some cbs \<Longrightarrow>
     subscribers (SimpleEventEmitter_emit run event args s) = run_all run args cbs (subscribers s)
   \<and> emitter_console (SimpleEventEmitter_emit run event args s) =
       emitter_console s @ replicate (count_thrown run args cbs (subscribers s)) Error
   \<and> listeners (SimpleEventEmitter_emit run event args s) = listeners s"
  by (simp add: SimpleEventEmitter_emit_def forEach_listener_subscribers
      forEach_listener_console forEach_listener_listeners)

lemma SimpleEventEmitter_emit_three_listeners:
  "listeners three_listeners ''progress'' = Some [1, 2, 3]
   \<and> subscribers (SimpleEventEmitter_emit tracing ''progress'' [JNum 5] three_listeners) = [1, 2, 3]
   \<and> emitter_console (SimpleEventEmitter_emit tracing ''progress'' [JNum 5] three_listeners) = [Error]"
proof -
  have l: "listeners three_listeners ''progress'' = Some [1, 2, 3]"
    by (simp add: three_listeners_def SimpleEventEmitter_on_def)
  have r: "run_all tracing [JNum 5] [1, 2, 3] (subscribers three_listeners) = [1, 2, 3]"
    by (simp add: three_listeners_def SimpleEventEmitter_on_def tracing_def after_call_def)
  have c: "count_thrown tracing [JNum 5] [1, 2, 3] (subscribers three_listeners) = 1"
    by (simp add: three_listeners_def SimpleEventEmitter_on_def tracing_def after_call_def threw_def)
  show ?thesis
    using SimpleEventEmitter_emit_isolates [OF l, of tracing "[JNum 5]"] l r c
    by (simp add: three_listeners_def SimpleEventEmitter_on_def)
qed

section \<open>Timer bookkeeping shared by the services\<close>

text \<open>
  Clearing a timer whose id the service holds removes every entry of that id from the
  table; where the service holds none, nothing changes.
\<close>

lemma clearReconnectTimer_eq:
  "clearReconnectTimer s =
     s\<lparr>timers := filter (\<lambda>t. Some (fst t) \<noteq> reconnectTimer s) (timers s), reconnectTimer := None\<rparr>"
proof (cases "reconnectTimer s")
  case None
  then have "s\<lparr>reconnectTimer := None\<rparr> = s" by (cases s) simp
  with None show ?thesis by (simp add: clearReconnectTimer_def)
next
  case (Some t)
  then show ?thesis by (simp add: clearReconnectTimer_def clearTimeout_def)
qed

lemma stopPingInterval_eq:
  "stopPingInterval s =
     s\<lparr>timers := filter (\<lambda>t. Some (fst t) \<noteq> pingTimer s) (timers s), pingTimer := None\<rparr>"
proof (cases "pingTimer s")
  case None
  then have "s\<lparr>pingTimer := None\<rparr> = s" by (cases s) simp
  with None show ?thesis by (simp add: stopPingInterval_def)
next
  case (Some t)
  then show ?thesis by (simp add: stopPingInterval_def clearTimeout_def)
qed

lemmas host_defs = emit_def console_log_def console_error_def console_warn_def add_timer_def
  clearTimeout_def pending_def ws_open_def new_WebSocket_def ws_send_def close_and_drop_def
  set_readyState_def clearReconnectTimer_eq stopPingInterval_eq Let_def


section \<open>The emitter in RobustWebSocketService\<close>

text \<open>
  With an emitter that returns, each method ends by returning, in the state that the
  definition without the emitter gives.
\<close>

lemma emitE_returning:
  "returning em \<Longrightarrow> \<exists>w'. emitE em event args (s, w) = Return () (emit event args s, w')"
proof -
  assume "returning em"
  then have "\<not> threw (em event args w)"
    by (simp add: returning_def)
  then show ?thesis
    by (cases "em event args w") (simp_all add: emitE_def threw_def)
qed

lemma Robust_scheduleReconnectE_returning:
  assumes "returning em"
  shows "\<exists>w'. Robust_scheduleReconnectE em (s, w) = Return () (Robust_scheduleReconnect s, w')"
  using emitE_returning [OF assms, of "''maxReconnectAttemptsReached''" "[]" "console_error s" w]
  by (auto simp: Robust_scheduleReconnectE_def Robust_scheduleReconnect_def Let_def)

lemma Robust_connectE_returning:
  assumes "returning em"
  shows "\<exists>w'. Robust_connectE em chs (s, w) = Return () (Robust_connect chs s, w')"
proof (cases "isConnecting s \<or> ws_open s")
  case True
  then show ?thesis by (auto simp: Robust_connectE_def Robust_connect_def)
next
  case False
  let ?s2 = "console_log (console_log (console_log
               (s\<lparr>isConnecting := True, channels := chs, shouldReconnect := True\<rparr>)))"
  let ?u = "url s @ ''/'' @ clientId s @ ''?channels='' @ join '','' chs"
  show ?thesis
  proof (cases "new_WebSocket ?u ?s2")
    case (Some s3)
    with False show ?thesis
      by (simp add: Robust_connectE_def Robust_connect_def Let_def)
  next
    case None
    let ?s3 = "(console_error ?s2)\<lparr>isConnecting := False\<rparr>"
    obtain w1 where e: "emitE em ''error'' [JError ''WebSocket constructor''] (?s3, w)
        = Return () (emit ''error'' [JError ''WebSocket constructor''] ?s3, w1)"
      using emitE_returning [OF assms] by blast
    obtain w2 where r: "Robust_scheduleReconnectE em (emit ''error'' [JError ''WebSocket constructor''] ?s3, w1)
        = Return () (Robust_scheduleReconnect (emit ''error'' [JError ''WebSocket constructor''] ?s3), w2)"
      using Robust_scheduleReconnectE_returning [OF assms] by blast
    from False None e r show ?thesis
      by (simp add: Robust_connectE_def Robust_connect_def Let_def and_then_def)
  qed
qed

lemma Robust_sendE_returning:
  assumes "returning em"
  shows "\<exists>w'. Robust_sendE em data (s, w)
           = Return (fst (Robust_send data s)) (snd (Robust_send data s), w')"
proof (cases "ws_open s")
  case True
  obtain w1 where "emitE em ''error'' [JError ''JSON.stringify''] (console_error s, w)
      = Return () (emit ''error'' [JError ''JSON.stringify''] (console_error s), w1)"
    using emitE_returning [OF assms] by blast
  with True show ?thesis
    by (simp add: Robust_sendE_def Robust_send_def Let_def and_then_def)
next
  case False
  obtain w1 where "Robust_connectE em (channels s) (console_log (console_error s), w)
      = Return () (Robust_connect (channels s) (console_log (console_error s)), w1)"
    using Robust_connectE_returning [OF assms] by blast
  with False show ?thesis
    by (simp add: Robust_sendE_def Robust_send_def Let_def and_then_def console_error_def
        console_log_def)
qed

lemma Robust_handleMessageE_returning:
  assumes "returning em"
  shows "\<exists>w'. Robust_handleMessageE em data (s, w) = Return () (Robust_handleMessage data s, w')"
  by (simp add: Robust_handleMessageE_def Robust_handleMessage_def Let_def
      emitE_returning [OF assms])

lemma Robust_onmessageE_returning:
  assumes "returning em"
  shows "\<exists>w'. Robust_onmessageE em JSON_parse text (s, w) = (Robust_onmessage JSON_parse text s, w')"
proof (cases "JSON_parse text")
  case None
  then show ?thesis
    by (simp add: Robust_onmessageE_def Robust_onmessage_def)
next
  case (Some data)
  obtain w1 where "Robust_handleMessageE em data (console_log s, w)
      = Return () (Robust_handleMessage data (console_log s), w1)"
    using Robust_handleMessageE_returning [OF assms] by blast
  with Some show ?thesis
    by (simp add: Robust_onmessageE_def Robust_onmessage_def)
qed

section \<open>A listener that throws\<close>

lemma call_in_turn_stops:
  "run cb args w = Throws w' \<Longrightarrow> call_in_turn run args (cb # cbs) w = Throws w'"
  by simp

text \<open>
  C10 on \<^verbatim>\<open>RobustWebSocketService\<close>, whose \<^verbatim>\<open>emit\<close> is that of the \<^verbatim>\<open>events\<close>
  package. Three listeners are registered for \<^verbatim>\<open>progress\<close>, and the second throws. A
  connected service receives a progress frame. The first two listeners are entered; the
  exception of the second leaves \<^verbatim>\<open>emit\<close> and \<^verbatim>\<open>handleMessage\<close> and is caught by the
  \<^verbatim>\<open>catch\<close> block of \<^verbatim>\<open>onmessage\<close>, which logs it as a parse failure. The third
  listener is not called. \<^verbatim>\<open>SimpleEventEmitter.emit\<close> with the same three listeners calls
  all three.
\<close>

theorem Robust_listener_exception_stops_dispatch:
  "listeners three_listeners ''progress'' = Some [1, 2, 3]
 \<and> Robust_onmessageE (EventEmitter_emit tracing (listeners three_listeners))
       (reads_as progress_message) ''frame'' (Robust_connected, [])
     = (Robust_connected
          \<lparr>console := console Robust_connected @ [Log, Error, Log],
            emitted := emitted Robust_connected
              @ [(''progress'', [JObj [(''processed'', JNum 5), (''total'', JNum 10)]])]\<rparr>,
        [1, 2])
 \<and> subscribers
       (SimpleEventEmitter_emit tracing ''progress''
          [JObj [(''processed'', JNum 5), (''total'', JNum 10)]] three_listeners)
     = [1, 2, 3]"
  by (simp add: Robust_onmessageE_def Robust_handleMessageE_def emitE_def EventEmitter_emit_def
      SimpleEventEmitter_emit_def call_listener_def three_listeners_def SimpleEventEmitter_on_def
      tracing_def reads_as_def progress_message_def js_member_def get_prop_def emit_def
      console_log_def console_error_def Let_def)

section \<open>Reconnect backoff of RobustWebSocketService\<close>











section \<open>send while the socket is not open\<close>

lemma emitE_wire: "wire (fst (js_state (emitE em event args (s, w)))) = wire s"
  by (cases "em event args w") (simp_all add: emitE_def js_state_def emit_def)

lemma Robust_scheduleReconnectE_wire:
  "wire (fst (js_state (Robust_scheduleReconnectE em (s, w)))) = wire s"
  using emitE_wire [of em "''maxReconnectAttemptsReached''" "[]" "console_error s" w]
  by (simp add: Robust_scheduleReconnectE_def host_defs js_state_def)

lemma Robust_connectE_wire:
  "wire (fst (js_state (Robust_connectE em chs (s, w)))) = wire s"
proof (cases "isConnecting s \<or> ws_open s")
  case True
  then show ?thesis
    by (auto simp: Robust_connectE_def js_state_def console_log_def)
next
  case False
  let ?s2 = "console_log (console_log (console_log
               (s\<lparr>isConnecting := True, channels := chs, shouldReconnect := True\<rparr>)))"
  let ?u = "url s @ ''/'' @ clientId s @ ''?channels='' @ join '','' chs"
  let ?s3 = "(console_error ?s2)\<lparr>isConnecting := False\<rparr>"
  show ?thesis
  proof (cases "WebSocket_throws s ?u")
    case no: False
    with False show ?thesis
      by (simp add: Robust_connectE_def Let_def js_state_def host_defs)
  next
    case yes: True
    show ?thesis
    proof (cases "emitE em ''error'' [JError ''WebSocket constructor''] (?s3, w)")
      case (Return u sw)
      then have "wire (fst sw) = wire s"
        using emitE_wire [of em "''error''" "[JError ''WebSocket constructor'']" ?s3 w]
        by (simp add: js_state_def host_defs)
      then have "wire (fst (js_state (Robust_scheduleReconnectE em sw))) = wire s"
        using Robust_scheduleReconnectE_wire [of em "fst sw" "snd sw"] by simp
      with False yes Return show ?thesis
        by (simp add: Robust_connectE_def Let_def and_then_def new_WebSocket_def console_log_def)
    next
      case (Throw sw)
      then have "wire (fst sw) = wire s"
        using emitE_wire [of em "''error''" "[JError ''WebSocket constructor'']" ?s3 w]
        by (simp add: js_state_def host_defs)
      with False yes Throw show ?thesis
        by (simp add: Robust_connectE_def Let_def and_then_def new_WebSocket_def console_log_def
            js_state_def)
    qed
  qed
qed

lemma Robust_sendE_closed:
  assumes "\<not> ws_open r"
  shows "wire (fst (js_state (Robust_sendE em data (r, w)))) = wire r"
    and "Robust_sendE em data (r, w) = Return v sw \<Longrightarrow> v = False"
proof -
  let ?c = "Robust_connectE em (channels r) (console_log (console_error r), w)"
  have c: "wire (fst (js_state ?c)) = wire r"
    using Robust_connectE_wire [of em "channels r" "console_log (console_error r)" w]
    by (simp add: console_log_def console_error_def)
  show "wire (fst (js_state (Robust_sendE em data (r, w)))) = wire r"
    using assms c
    by (cases ?c)
       (simp_all add: Robust_sendE_def Let_def and_then_def js_state_def console_error_def
          console_log_def)
  show "Robust_sendE em data (r, w) = Return v sw \<Longrightarrow> v = False"
    using assms
    by (cases ?c)
       (auto simp: Robust_sendE_def Let_def and_then_def console_error_def console_log_def
          split: if_splits)
qed

lemma Robust_sendE_disabled:
  assumes "\<not> ws_open r" "\<not> (shouldReconnect r \<and> \<not> isConnecting r)"
  shows "Robust_sendE em data (r, w) = Return False (console_error r, w)"
  using assms by (auto simp: Robust_sendE_def Let_def console_error_def)

lemma Robust_sendE_reconnects:
  assumes "\<not> ws_open r" "shouldReconnect r" "\<not> isConnecting r"
    "\<not> WebSocket_throws r (url r @ ''/'' @ clientId r @ ''?channels='' @ join '','' (channels r))"
  shows "Robust_sendE em data (r, w) =
           Return False
             (r\<lparr>sockets_created := Suc (sockets_created r),
                console := console r @ [Error, Log, Log, Log, Log],
                ws := Some \<lparr>sock_id = sockets_created r,
                            sock_url = url r @ ''/'' @ clientId r @ ''?channels='' @ join '','' (channels r),
                            readyState = CONNECTING\<rparr>,
                isConnecting := True\<rparr>, w)"
  using assms
  by (cases r)
     (simp add: Robust_sendE_def Robust_connectE_def Let_def and_then_def host_defs)

lemma Robust_sendE_true:
  "Robust_sendE em data (r, w) = Return True sw \<Longrightarrow> ws_open r"
  using Robust_sendE_closed(2) [of r em data w True sw] by auto

text \<open>
  C2, as the code has it. While the socket is not open, \<^verbatim>\<open>send\<close> writes nothing to any
  socket, however it ends, and the value it returns, when it returns, is \<open>False\<close>; the
  state has no queue in which a payload could be kept. \<^verbatim>\<open>WebSocketService.send\<close>
  returns \<open>False\<close> and changes nothing but the console.
  \<^verbatim>\<open>RobustWebSocketService.send\<close> returns \<open>False\<close> and changes nothing but the console
  when reconnecting is disabled or a connection attempt is under way; otherwise it goes on
  to call \<^verbatim>\<open>connect(this.channels)\<close>, and where the \<^verbatim>\<open>WebSocket\<close> constructor accepts the
  address it returns \<open>False\<close> holding a new socket that is connecting. In both classes
  \<^verbatim>\<open>send\<close> returns \<open>True\<close> only when the socket is open. This holds for every emitter.
\<close>

theorem send_when_not_open:
  "(\<not> ws_open r \<longrightarrow>
      wire (fst (js_state (Robust_sendE em data (r, w)))) = wire r
    \<and> (\<forall>v sw. Robust_sendE em data (r, w) = Return v sw \<longrightarrow> v = False)
    \<and> (\<not> (shouldReconnect r \<and> \<not> isConnecting r) \<longrightarrow>
         Robust_sendE em data (r, w) = Return False (console_error r, w))
    \<and> (shouldReconnect r \<and> \<not> isConnecting r
        \<and> \<not> WebSocket_throws r (url r @ ''/'' @ clientId r @ ''?channels='' @ join '','' (channels r)) \<longrightarrow>
         Robust_sendE em data (r, w) =
           Return False
             (r\<lparr>sockets_created := Suc (sockets_created r),
                console := console r @ [Error, Log, Log, Log, Log],
                ws := Some \<lparr>sock_id = sockets_created r,
                            sock_url = url r @ ''/'' @ clientId r @ ''?channels='' @ join '','' (channels r),
                            readyState = CONNECTING\<rparr>,
                isConnecting := True\<rparr>, w)))
 \<and> (\<not> ws_open f \<longrightarrow> Fixed_send data f = (False, console_error f))
 \<and> (\<forall>sw. Robust_sendE em data (r, w) = Return True sw \<longrightarrow> ws_open r)
 \<and> (fst (Fixed_send data f) \<longrightarrow> ws_open f)"
proof -
  have f1: "\<not> ws_open f \<longrightarrow> Fixed_send data f = (False, console_error f)"
    by (simp add: Fixed_send_def)
  have f2: "fst (Fixed_send data f) \<longrightarrow> ws_open f"
    by (simp add: Fixed_send_def Let_def)
  have r1: "\<not> ws_open r \<longrightarrow> wire (fst (js_state (Robust_sendE em data (r, w)))) = wire r"
    using Robust_sendE_closed(1) [of r em data w] by blast
  have r2: "\<not> ws_open r \<longrightarrow> (\<forall>v sw. Robust_sendE em data (r, w) = Return v sw \<longrightarrow> v = False)"
    using Robust_sendE_closed(2) [of r em data w] by blast
  have r3: "\<forall>sw. Robust_sendE em data (r, w) = Return True sw \<longrightarrow> ws_open r"
    using Robust_sendE_true [of em data r w] by blast
  show ?thesis
    using f1 f2 r1 r2 r3 Robust_sendE_disabled [of r em data w]
      Robust_sendE_reconnects [of r em data w]
    by blast
qed

theorem send_when_not_open_witness:
  "\<not> ws_open Robust_fresh
 \<and> Robust_sendE no_listeners ping (Robust_fresh, [])
     = Return False
         (Robust_fresh
            \<lparr>sockets_created := 1,
              console := [Log, Log, Log, Error, Log, Log, Log, Log],
              ws := Some \<lparr>sock_id = 0, sock_url = ''ws://localhost:8002/ws/airiss-1?channels='',
                          readyState = CONNECTING\<rparr>,
              isConnecting := True\<rparr>, [])
 \<and> \<not> ws_open (Robust_disconnect Robust_connected)
 \<and> Robust_sendE no_listeners ping (Robust_disconnect Robust_connected, [])
     = Return False (console_error (Robust_disconnect Robust_connected), [])
 \<and> \<not> ws_open Fixed_fresh
 \<and> Fixed_send ping Fixed_fresh = (False, console_error Fixed_fresh)
 \<and> fst (Fixed_send ping Fixed_connected) \<and> ws_open Fixed_connected"
proof -
  have a: "\<not> ws_open Robust_fresh" "shouldReconnect Robust_fresh" "\<not> isConnecting Robust_fresh"
    "\<not> WebSocket_throws Robust_fresh (url Robust_fresh @ ''/'' @ clientId Robust_fresh
         @ ''?channels='' @ join '','' (channels Robust_fresh))"
    "sockets_created Robust_fresh = 0" "console Robust_fresh = [Log, Log, Log]"
    "url Robust_fresh = ''ws://localhost:8002/ws''" "clientId Robust_fresh = ''airiss-1''"
    "channels Robust_fresh = []"
    by (simp_all add: Robust_fresh_def Robust_new_def ws_open_def)
  have b: "\<not> ws_open (Robust_disconnect Robust_connected)"
    "\<not> shouldReconnect (Robust_disconnect Robust_connected)"
    by (simp_all add: Robust_disconnect_def host_defs split: option.splits)
  have c: "\<not> ws_open Fixed_fresh"
    by (simp add: Fixed_fresh_def Fixed_new_def ws_open_def)
  have d: "fst (Fixed_send ping Fixed_connected)"
    by (simp add: Fixed_connected_def Fixed_fresh_def Fixed_new_def Fixed_socket_opens_def
        Fixed_onopen_def Fixed_emit_def Fixed_send_def Fixed_connect_def
        ping_def with_timestamp_def host_defs)
  have "Robust_sendE no_listeners ping (Robust_fresh, [])
     = Return False
         (Robust_fresh
            \<lparr>sockets_created := Suc (sockets_created Robust_fresh),
              console := console Robust_fresh @ [Error, Log, Log, Log, Log],
              ws := Some \<lparr>sock_id = sockets_created Robust_fresh,
                          sock_url = url Robust_fresh @ ''/'' @ clientId Robust_fresh
                                     @ ''?channels='' @ join '','' (channels Robust_fresh),
                          readyState = CONNECTING\<rparr>,
              isConnecting := True\<rparr>, [])"
    using send_when_not_open [of Robust_fresh no_listeners ping "[]" Fixed_fresh] a(1-4) by blast
  moreover have "Robust_sendE no_listeners ping (Robust_disconnect Robust_connected, [])
     = Return False (console_error (Robust_disconnect Robust_connected), [])"
    using send_when_not_open [of "Robust_disconnect Robust_connected" no_listeners ping "[]" Fixed_fresh] b
    by blast
  moreover have "Fixed_send ping Fixed_fresh = (False, console_error Fixed_fresh)"
    using send_when_not_open [of Robust_fresh no_listeners ping "[]" Fixed_fresh] c by blast
  moreover have "ws_open Fixed_connected"
    using send_when_not_open [of Robust_fresh no_listeners ping "[]" Fixed_connected] d by blast
  ultimately show ?thesis
    using a b c d by simp
qed

text \<open>
  The claim as it is written fails on a fresh \<^verbatim>\<open>RobustWebSocketService\<close>: the socket is
  not open, \<^verbatim>\<open>send\<close> returns \<open>False\<close>, and the service has created a socket and holds
  it.
\<close>

theorem send_reconnects_counterexample:
  "\<not> ws_open Robust_fresh
 \<and> ws Robust_fresh = None
 \<and> Robust_sendE no_listeners ping (Robust_fresh, [])
     = Return False (fst (js_state (Robust_sendE no_listeners ping (Robust_fresh, []))), [])
 \<and> ws (fst (js_state (Robust_sendE no_listeners ping (Robust_fresh, []))))
     = Some \<lparr>sock_id = 0, sock_url = ''ws://localhost:8002/ws/airiss-1?channels='',
             readyState = CONNECTING\<rparr>
 \<and> sockets_created (fst (js_state (Robust_sendE no_listeners ping (Robust_fresh, [])))) = 1"
  by (simp add: Robust_fresh_def Robust_new_def Robust_sendE_def Robust_connectE_def
      and_then_def js_state_def host_defs)

text \<open>
  Where the constructor throws and no listener is registered for \<^verbatim>\<open>error\<close>, the
  \<^verbatim>\<open>emit('error', ...)\<close> in the \<^verbatim>\<open>catch\<close> block of \<^verbatim>\<open>connect\<close> throws, and \<^verbatim>\<open>send\<close>
  ends with that exception: it returns nothing, has set no timer, and has written nothing.
\<close>

lemma Robust_send_propagates_exception:
  "Robust_sendE no_listeners ping (Robust_unreachable, [])
     = Throw (Robust_unreachable
                \<lparr>console := [Log, Log, Log, Error, Log, Log, Log, Log, Error],
                  emitted := [(''error'', [JError ''WebSocket constructor''])],
                  channels := []\<rparr>, [])"
  by (simp add: Robust_unreachable_def Robust_new_def Robust_sendE_def Robust_connectE_def
      emitE_def no_listeners_def EventEmitter_emit_def and_then_def host_defs)

section \<open>connect while a connection attempt is under way\<close>

text \<open>
  Where the flag \<open>isConnecting\<close> is set or the held socket is open, \<^verbatim>\<open>connect\<close> writes a
  console line and does nothing else.
\<close>

lemma Robust_connect_redundant:
  "isConnecting s \<or> ws_open s \<Longrightarrow> Robust_connect chs s = console_log s"
  by (auto simp: Robust_connect_def)

lemma Fixed_connect_redundant:
  "isConnecting s \<or> ws_open s \<Longrightarrow> Fixed_connect chs s = console_log s"
  by (auto simp: Fixed_connect_def)

lemma Enhanced_connect_redundant:
  "isConnecting s \<or> ws_open s \<Longrightarrow> Enhanced_connect chs s = console_log s"
  by (auto simp: Enhanced_connect_def)

text \<open>
  C3 on \<^verbatim>\<open>RobustWebSocketService\<close> and \<^verbatim>\<open>WebSocketService\<close>. The close handler of
  every socket the service has created clears \<open>isConnecting\<close>, also that of a socket the
  service has dropped. After \<^verbatim>\<open>connect()\<close>, \<^verbatim>\<open>disconnect()\<close>, \<^verbatim>\<open>connect()\<close> and the
  close event of the first socket, the service holds the second socket, which is still
  connecting, and \<open>isConnecting\<close> is \<open>False\<close>. A further \<^verbatim>\<open>connect()\<close> then creates a
  third socket and holds it; the second is neither closed nor held any more.
\<close>

theorem connect_abandons_connecting_socket:
  "ws Robust_second_attempt
     = Some \<lparr>sock_id = 1, sock_url = ''ws://localhost:8002/ws/airiss-1?channels=analysis'',
             readyState = CONNECTING\<rparr>
 \<and> \<not> isConnecting Robust_second_attempt
 \<and> sockets_created Robust_second_attempt = 2
 \<and> ws (Robust_connect [''analysis''] Robust_second_attempt)
     = Some \<lparr>sock_id = 2, sock_url = ''ws://localhost:8002/ws/airiss-1?channels=analysis'',
             readyState = CONNECTING\<rparr>
 \<and> sockets_created (Robust_connect [''analysis''] Robust_second_attempt) = 3
 \<and> close_calls (Robust_connect [''analysis''] Robust_second_attempt)
     = [(0, 1000, ''Normal closure by client'')]
 \<and> ws Fixed_second_attempt
     = Some \<lparr>sock_id = 1, sock_url = ''ws://localhost:8002/ws/react-client-1?channels=analysis'',
             readyState = CONNECTING\<rparr>
 \<and> \<not> isConnecting Fixed_second_attempt
 \<and> sockets_created Fixed_second_attempt = 2
 \<and> ws (Fixed_connect [''analysis''] Fixed_second_attempt)
     = Some \<lparr>sock_id = 2, sock_url = ''ws://localhost:8002/ws/react-client-1?channels=analysis'',
             readyState = CONNECTING\<rparr>
 \<and> sockets_created (Fixed_connect [''analysis''] Fixed_second_attempt) = 3
 \<and> close_calls (Fixed_connect [''analysis''] Fixed_second_attempt) = [(0, 1000, ''Normal closure'')]"
proof -
  have r: "Robust_second_attempt =
      Robust_onclose 1006
        (Robust_connect [''analysis''] (Robust_disconnect (Robust_connect [''analysis''] Robust_fresh)))"
    by (simp add: Robust_second_attempt_def)
  have f: "Fixed_second_attempt =
      Fixed_onclose [''analysis''] 1006
        (Fixed_connect [''analysis''] (Fixed_disconnect (Fixed_connect [''analysis''] Fixed_fresh)))"
    by (simp add: Fixed_second_attempt_def)
  have rs: "ws Robust_second_attempt
       = Some \<lparr>sock_id = 1, sock_url = ''ws://localhost:8002/ws/airiss-1?channels=analysis'',
               readyState = CONNECTING\<rparr>"
    "\<not> isConnecting Robust_second_attempt" "sockets_created Robust_second_attempt = 2"
    "close_calls Robust_second_attempt = [(0, 1000, ''Normal closure by client'')]"
    "url Robust_second_attempt = ''ws://localhost:8002/ws''"
    "clientId Robust_second_attempt = ''airiss-1''"
    "WebSocket_throws Robust_second_attempt = (\<lambda>u. False)"
    unfolding r
    by (simp_all add: Robust_fresh_def Robust_new_def Robust_connect_def Robust_disconnect_def
        Robust_onclose_def Robust_scheduleReconnect_def host_defs)
  have fs: "ws Fixed_second_attempt
       = Some \<lparr>sock_id = 1, sock_url = ''ws://localhost:8002/ws/react-client-1?channels=analysis'',
               readyState = CONNECTING\<rparr>"
    "\<not> isConnecting Fixed_second_attempt" "sockets_created Fixed_second_attempt = 2"
    "close_calls Fixed_second_attempt = [(0, 1000, ''Normal closure'')]"
    "url Fixed_second_attempt = ''ws://localhost:8002/ws''"
    "clientId Fixed_second_attempt = ''react-client-1''"
    "WebSocket_throws Fixed_second_attempt = (\<lambda>u. False)"
    unfolding f
    by (simp_all add: Fixed_fresh_def Fixed_new_def Fixed_connect_def Fixed_disconnect_def
        Fixed_onclose_def Fixed_emit_def host_defs)
  show ?thesis
    by (simp add: rs fs Robust_connect_def Fixed_connect_def host_defs)
qed

section \<open>The first delay after a successful open\<close>

text \<open>
  In \<^verbatim>\<open>RobustWebSocketService\<close> and \<^verbatim>\<open>EnhancedWebSocketService\<close> the open handler
  resets the attempt count, and the timer set by the next abnormal closure has the base
  delay.
\<close>

lemma Robust_delay_after_open:
  assumes "code \<noteq> 1000" "ws_open s" "shouldReconnect s" "0 < maxReconnectAttempts s"
    "3000 \<le> maxReconnectInterval s"
  shows "reconnectAttempts (Robust_onopen s) = 0"
    and "reconnectInterval (Robust_onopen s) = 3000"
    and "last (timers (Robust_onclose code (Robust_onopen s)))
           = (Suc (next_timer s), Timeout, Robust_reconnect, 3000)"
  using assms
  by (simp_all add: Robust_onopen_def Robust_onclose_def Robust_startPingInterval_def
      Robust_send_def Robust_scheduleReconnect_def host_defs Math_pow_def Math_min_def
      split: option.splits)

lemma Enhanced_delay_after_open:
  assumes "code \<noteq> 1000" "shouldReconnect s" "0 < maxReconnectAttempts s"
    "reconnectInterval s \<le> 30000"
  shows "reconnectAttempts (Enhanced_onopen s) = 0"
    and "last (timers (Enhanced_onclose code (Enhanced_onopen s)))
           = (Suc (next_timer s), Timeout, Enhanced_reconnect, reconnectInterval s)"
  using assms
  by (simp_all add: Enhanced_onopen_def Enhanced_onclose_def Enhanced_startPingInterval_def
      Enhanced_handleReconnection_def Enhanced_emit_def host_defs Math_pow_def Math_min_def)

text \<open>
  In \<^verbatim>\<open>WebSocketService\<close> the close handler schedules with \<open>retryCount\<close> as the open
  handler left it, \<open>0\<close>, and the delay is \<open>reconnectInterval * 2 ^ (0 - 1)\<close>: half the
  base delay.
\<close>

lemma Fixed_delay_after_open:
  assumes "code \<noteq> 1000" "0 < maxRetryAttempts s"
  shows "retryCount (Fixed_onopen s) = 0"
    and "last (timers (Fixed_onclose chs code (Fixed_onopen s)))
           = (next_timer s, Timeout, Fixed_reconnect chs, reconnectInterval s / 2)"
  using assms
  by (simp_all add: Fixed_onopen_def Fixed_onclose_def Fixed_send_def Fixed_emit_def
      Fixed_scheduleReconnect_def host_defs Math_pow_def split: option.splits)

text \<open>
  C6 on \<^verbatim>\<open>WebSocketService\<close>: the service connects, the socket opens (which sets
  \<open>retryCount\<close> to \<open>0\<close>), and the socket closes with code 1006. The one reconnect timer
  then pending has a delay of 2500 ms, while the base delay \<open>reconnectInterval\<close> is 5000 ms.
\<close>

theorem Fixed_first_delay_after_open:
  "retryCount Fixed_connected = 0
 \<and> reconnectInterval Fixed_connected = 5000
 \<and> Fixed_scheduled_delays (Fixed_socket_closes [''analysis'', ''alerts''] 1006 Fixed_connected) = [2500]"
  by (simp add: Fixed_connected_def Fixed_fresh_def Fixed_new_def Fixed_socket_opens_def
      Fixed_socket_closes_def Fixed_onopen_def Fixed_onclose_def Fixed_emit_def Fixed_send_def
      Fixed_connect_def Fixed_scheduleReconnect_def Fixed_scheduled_delays_def
      Fixed_is_reconnect_def with_timestamp_def host_defs Math_pow_def)

section \<open>Frames that do not parse\<close>

lemma Robust_parse_failure:
  "JSON_parse text = None \<Longrightarrow> Robust_onmessage JSON_parse text s = console_log (console_error s)"
  by (simp add: Robust_onmessage_def)

lemma Fixed_parse_failure:
  "JSON_parse text = None \<Longrightarrow> Fixed_onmessage JSON_parse text s = console_error s"
  by (simp add: Fixed_onmessage_def)

text \<open>
  \<^verbatim>\<open>EnhancedWebSocketService\<close> does what the claim says: one \<^verbatim>\<open>error\<close> event with a
  parse-failure description, two console lines (the handler's and the one of the
  listener the module registers for \<^verbatim>\<open>error\<close>), and no other change.
\<close>

lemma Enhanced_parse_failure:
  "JSON_parse text = None \<Longrightarrow>
     Enhanced_onmessage JSON_parse text s =
       s\<lparr>console := console s @ [Error, Error],
         emitted := emitted s @ [(''error'', [JError ''Message parse error''])]\<rparr>"
  by (simp add: Enhanced_onmessage_def Enhanced_emit_def host_defs)

text \<open>
  C7 on \<^verbatim>\<open>RobustWebSocketService\<close>: a connected service receives a frame that the
  parser rejects. The handler returns, and the state is the one before but for two console
  lines: no event has been emitted.
\<close>

theorem Robust_parse_failure_emits_nothing:
  "rejects ''{type:'' = None
 \<and> Robust_onmessage rejects ''{type:'' Robust_connected
     = Robust_connected\<lparr>console := console Robust_connected @ [Error, Log]\<rparr>
 \<and> emitted (Robust_onmessage rejects ''{type:'' Robust_connected) = emitted Robust_connected"
  by (simp add: rejects_def Robust_onmessage_def host_defs)

section \<open>The message that send transmits\<close>

lemma get_prop_with_timestamp:
  "get_prop (with_timestamp t data) k = (if k = ''timestamp'' then JStr t else get_prop data k)"
  by (simp add: get_prop_def with_timestamp_def update_conv')

lemma get_prop_with_client_id:
  "get_prop (with_client_id c message) k = (if k = ''client_id'' then JStr c else get_prop message k)"
  by (simp add: get_prop_def with_client_id_def update_conv')

text \<open>
  Whatever the emitter does, \<^verbatim>\<open>send\<close> of \<^verbatim>\<open>RobustWebSocketService\<close> returns \<open>True\<close>
  exactly when the definition without the emitter does, and in the same state: on that
  path nothing is emitted.
\<close>

lemma Robust_sendE_sent:
  "Robust_sendE em data (r, w) = Return True sw
     \<longleftrightarrow> fst (Robust_send data r) \<and> sw = (snd (Robust_send data r), w)"
proof (cases "ws_open r")
  case False
  then show ?thesis
    using Robust_sendE_true [of em data r w sw] by (auto simp: Robust_send_def Let_def)
next
  case True
  show ?thesis
  proof (cases "stringify_throws (JObj (with_client_id (clientId r) (with_timestamp (clock r) data)))")
    case no: False
    with True show ?thesis
      by (auto simp: Robust_sendE_def Robust_send_def Let_def)
  next
    case yes: True
    with True show ?thesis
      by (cases "emitE em ''error'' [JError ''JSON.stringify''] (console_error r, w)")
         (simp_all add: Robust_sendE_def Robust_send_def Let_def and_then_def)
  qed
qed

text \<open>
  C8, as the code has it. When \<^verbatim>\<open>send\<close> of \<^verbatim>\<open>RobustWebSocketService\<close> or of
  \<^verbatim>\<open>EnhancedWebSocketService\<close> returns \<open>True\<close>, exactly one frame has been written, to
  the socket the service holds. It is the payload with \<^verbatim>\<open>timestamp\<close> set to the clock
  and \<^verbatim>\<open>client_id\<close> set to the client identity: every property of the payload other
  than these two is carried with its value, and a \<^verbatim>\<open>timestamp\<close> or \<^verbatim>\<open>client_id\<close> of
  the payload is replaced. The payload is a value of the model and the message a new one,
  as the object literal of the source is: nothing writes to the caller's object.
\<close>

theorem sent_message_fields:
  "(fst (Robust_send data r) \<longrightarrow>
      (\<exists>w. ws r = Some w
         \<and> wire (snd (Robust_send data r))
             = wire r @ [(sock_id w, with_client_id (clientId r) (with_timestamp (clock r) data))]))
 \<and> (fst (Enhanced_send data e) \<longrightarrow>
      (\<exists>w. ws e = Some w
         \<and> wire (snd (Enhanced_send data e))
             = wire e @ [(sock_id w, with_client_id (clientId e) (with_timestamp (clock e) data))]))
 \<and> (\<forall>k. k \<noteq> ''timestamp'' \<and> k \<noteq> ''client_id'' \<longrightarrow>
        get_prop (with_client_id c (with_timestamp t data)) k = get_prop data k)
 \<and> get_prop (with_client_id c (with_timestamp t data)) ''timestamp'' = JStr t
 \<and> get_prop (with_client_id c (with_timestamp t data)) ''client_id'' = JStr c"
  by (auto simp: Robust_send_def Enhanced_send_def Let_def ws_open_def ws_send_def console_log_def
      get_prop_with_timestamp get_prop_with_client_id split: option.splits if_splits)

theorem sent_message_fields_witness:
  "fst (Robust_send ping Robust_connected)
 \<and> last (wire (snd (Robust_send ping Robust_connected)))
     = (0, [(''type'', JStr ''ping''), (''timestamp'', JStr []), (''client_id'', JStr ''airiss-1'')])
 \<and> fst (Enhanced_send ping Enhanced_connected)
 \<and> last (wire (snd (Enhanced_send ping Enhanced_connected)))
     = (0, [(''type'', JStr ''ping''), (''timestamp'', JStr []),
            (''client_id'', JStr ''react-client-1'')])"
proof -
  have r: "fst (Robust_send ping Robust_connected)"
    "ws Robust_connected = Some \<lparr>sock_id = 0,
       sock_url = ''ws://localhost:8002/ws/airiss-1?channels=analysis,alerts'', readyState = OPEN\<rparr>"
    "clock Robust_connected = []" "clientId Robust_connected = ''airiss-1''"
    by (simp_all add: Robust_connected_def Robust_fresh_def Robust_new_def Robust_socket_opens_def
        Robust_onopen_def Robust_startPingInterval_def Robust_send_def Robust_connect_def
        ping_def with_timestamp_def with_client_id_def host_defs)
  have e: "fst (Enhanced_send ping Enhanced_connected)"
    "ws Enhanced_connected = Some \<lparr>sock_id = 0,
       sock_url = ''ws://localhost:8002/ws/react-client-1?channels=analysis,alerts'', readyState = OPEN\<rparr>"
    "clock Enhanced_connected = []" "clientId Enhanced_connected = ''react-client-1''"
    by (simp_all add: Enhanced_connected_def Enhanced_fresh_def Enhanced_new_def
        Enhanced_socket_opens_def Enhanced_onopen_def Enhanced_emit_def Enhanced_send_def
        Enhanced_startPingInterval_def Enhanced_connect_def
        ping_def with_timestamp_def with_client_id_def host_defs)
  show ?thesis
    using sent_message_fields [of ping Robust_connected Enhanced_connected] r e
    by (auto simp: ping_def with_timestamp_def with_client_id_def)
qed

text \<open>
  The claim as it is written fails on \<^verbatim>\<open>RobustWebSocketService\<close> for a payload that has
  a \<^verbatim>\<open>timestamp\<close> of its own, as the payload of the service's own heartbeat has: the
  frame carries the clock's value in its place.
\<close>

theorem send_replaces_timestamp_counterexample:
  "fst (Robust_send [(''type'', JStr ''ping''), (''timestamp'', JStr ''T0'')]
         (Robust_connected\<lparr>clock := ''T1''\<rparr>))
 \<and> get_prop [(''type'', JStr ''ping''), (''timestamp'', JStr ''T0'')] ''timestamp'' = JStr ''T0''
 \<and> last (wire (snd (Robust_send [(''type'', JStr ''ping''), (''timestamp'', JStr ''T0'')]
                     (Robust_connected\<lparr>clock := ''T1''\<rparr>))))
     = (0, [(''type'', JStr ''ping''), (''timestamp'', JStr ''T1''), (''client_id'', JStr ''airiss-1'')])"
  by (simp add: Robust_connected_def Robust_fresh_def Robust_new_def Robust_socket_opens_def
      Robust_onopen_def Robust_startPingInterval_def Robust_send_def Robust_connect_def
      get_prop_def with_timestamp_def with_client_id_def host_defs)

text \<open>
  \<^verbatim>\<open>WebSocketService.send\<close> builds its message from the payload and the timestamp
  alone: the frame of a connected service has no \<^verbatim>\<open>client_id\<close>.
\<close>

lemma Fixed_send_omits_client_id:
  "fst (Fixed_send ping Fixed_connected)
 \<and> last (wire (snd (Fixed_send ping Fixed_connected)))
     = (0, [(''type'', JStr ''ping''), (''timestamp'', JStr [])])
 \<and> get_prop (snd (last (wire (snd (Fixed_send ping Fixed_connected))))) ''client_id'' = JUndefined"
  by (simp add: Fixed_connected_def Fixed_fresh_def Fixed_new_def Fixed_socket_opens_def
      Fixed_onopen_def Fixed_emit_def Fixed_send_def Fixed_connect_def
      ping_def get_prop_def with_timestamp_def host_defs)

section \<open>Frames of an unknown type\<close>

text \<open>
  \<^verbatim>\<open>RobustWebSocketService\<close> and \<^verbatim>\<open>EnhancedWebSocketService\<close> warn and hand the whole
  message to the \<^verbatim>\<open>message\<close> event.
\<close>

lemma Robust_unknown_type_forwarded:
  assumes "js_member data ''type'' \<notin> JStr ` {''progress'', ''result'', ''complete'', ''error'',
             ''alert'', ''notification'', ''connection_established'', ''ready'', ''pong''}"
  shows "Robust_handleMessage data s = emit ''message'' [data] (console_warn s)"
  using assms by (simp add: Robust_handleMessage_def Let_def)

lemma Enhanced_unknown_type_forwarded:
  assumes "js_member data ''type'' \<notin> JStr ` {''ready'', ''connection'', ''progress'', ''result'',
             ''complete'', ''error'', ''alert'', ''notification'', ''pong''}"
  shows "Enhanced_handleMessage data s = emit ''message'' [data] (console_warn s)"
  using assms by (simp add: Enhanced_handleMessage_def Enhanced_emit_def Let_def)

text \<open>\<^verbatim>\<open>WebSocketService\<close> warns and emits nothing.\<close>

lemma Fixed_unknown_type_dropped:
  assumes "js_member data ''type'' \<notin> JStr ` {''progress'', ''result'', ''complete'', ''error'',
             ''alert'', ''notification'', ''connection_established'', ''pong''}"
  shows "Fixed_handleMessage data s = console_warn s"
  using assms by (simp add: Fixed_handleMessage_def Let_def)

text \<open>
  C9 on \<^verbatim>\<open>WebSocketService\<close>: a connected service receives a frame that parses to a
  message of type \<^verbatim>\<open>status\<close>. The handler logs the message, warns, and emits nothing;
  the payload reaches no subscriber.
\<close>

theorem Fixed_unknown_type_not_forwarded:
  "Fixed_onmessage (reads_as (JObj [(''type'', JStr ''status''), (''data'', JNum 1)])) ''frame''
     Fixed_connected
     = Fixed_connected\<lparr>console := console Fixed_connected @ [Log, Warn]\<rparr>
 \<and> emitted (Fixed_onmessage (reads_as (JObj [(''type'', JStr ''status''), (''data'', JNum 1)]))
              ''frame'' Fixed_connected)
     = emitted Fixed_connected"
  by (simp add: Fixed_onmessage_def Fixed_handleMessage_def reads_as_def js_member_def
      get_prop_def host_defs)

section \<open>At most one pending reconnect timer\<close>

lemma tracked_filter:
  "tracked P ts n r \<Longrightarrow> tracked P (filter Q ts) n r"
  by (auto simp: tracked_def distinct_map_filter)

lemma tracked_cleared:
  "tracked P ts n r \<Longrightarrow> \<forall>t \<in> set ts. Q t \<longrightarrow> Some (fst t) \<noteq> r \<Longrightarrow> tracked P (filter Q ts) n r'"
  by (auto simp: tracked_def distinct_map_filter)

lemma tracked_scheduled:
  "tracked P ts n r \<Longrightarrow> \<forall>t \<in> set ts. Q t \<longrightarrow> Some (fst t) \<noteq> r \<Longrightarrow>
     tracked P (filter Q ts @ [(n, k, cb, d)]) (Suc n) (Some n)"
  by (fastforce simp: tracked_def distinct_map_filter)

lemma tracked_other:
  "tracked P ts n r \<Longrightarrow> \<not> P cb \<Longrightarrow> tracked P (filter Q ts @ [(n, k, cb, d)]) (Suc n) r"
  by (fastforce simp: tracked_def distinct_map_filter)

lemma tracked_cleared_other:
  "tracked P ts n r \<Longrightarrow> \<forall>t \<in> set ts. Q t \<longrightarrow> Some (fst t) \<noteq> r \<Longrightarrow> \<not> P cb \<Longrightarrow>
     tracked P (filter Q ts @ [(n, k, cb, d)]) (Suc n) r'"
  by (fastforce simp: tracked_def distinct_map_filter)

lemma tracked_other':
  "tracked P ts n r \<Longrightarrow> \<not> P cb \<Longrightarrow> tracked P (ts @ [(n, k, cb, d)]) (Suc n) r"
  using tracked_other [of P ts n r cb "\<lambda>t. True" k d] by simp




subsection \<open>RobustWebSocketService\<close>

lemma Robust_scheduleReconnect_tracked:
  "Robust_one_timer s \<Longrightarrow> Robust_one_timer (Robust_scheduleReconnect s)"
  by (simp add: Robust_scheduleReconnect_def host_defs tracked_scheduled)

lemma Robust_connect_tracked:
  "Robust_one_timer s \<Longrightarrow> Robust_one_timer (Robust_connect chs s)"
  by (simp add: Robust_connect_def host_defs Robust_scheduleReconnect_tracked split: option.splits)

lemma Robust_send_tracked:
  "Robust_one_timer s \<Longrightarrow> Robust_one_timer (snd (Robust_send data s))"
  by (simp add: Robust_send_def host_defs Robust_connect_tracked split: option.splits)

lemma Robust_onopen_tracked:
  "Robust_one_timer s \<Longrightarrow> Robust_one_timer (Robust_onopen s)"
  by (simp add: Robust_onopen_def Robust_startPingInterval_def host_defs Robust_send_tracked
      tracked_cleared_other)

lemma Robust_onmessage_tracked:
  "Robust_one_timer s \<Longrightarrow> Robust_one_timer (Robust_onmessage JSON_parse text s)"
  by (simp add: Robust_onmessage_def Robust_handleMessage_def host_defs split: option.splits)

lemma Robust_onerror_tracked:
  "Robust_one_timer s \<Longrightarrow> Robust_one_timer (Robust_onerror s)"
  by (simp add: Robust_onerror_def host_defs Robust_scheduleReconnect_tracked)

lemma Robust_onclose_tracked:
  "Robust_one_timer s \<Longrightarrow> Robust_one_timer (Robust_onclose code s)"
  by (simp add: Robust_onclose_def host_defs Robust_scheduleReconnect_tracked tracked_filter)

lemma Robust_disconnect_tracked:
  "Robust_one_timer s \<Longrightarrow> Robust_one_timer (Robust_disconnect s)"
  by (simp add: Robust_disconnect_def host_defs tracked_cleared split: option.splits)

lemma Robust_reconnect_callback_tracked:
  "Robust_one_timer s \<Longrightarrow> Robust_one_timer (Robust_reconnect_callback s)"
  by (simp add: Robust_reconnect_callback_def host_defs Robust_connect_tracked)

lemma Robust_ping_callback_tracked:
  "Robust_one_timer s \<Longrightarrow> Robust_one_timer (Robust_ping_callback s)"
  by (simp add: Robust_ping_callback_def host_defs Robust_send_tracked tracked_filter)

lemma Robust_forceReconnect_tracked:
  "Robust_one_timer s \<Longrightarrow> Robust_one_timer (Robust_forceReconnect s)"
  by (simp add: Robust_forceReconnect_def add_timer_def tracked_other' Robust_disconnect_tracked
      console_log_def)

lemma Robust_testConnection_tracked:
  "Robust_one_timer s \<Longrightarrow> Robust_one_timer (Robust_testConnection s)"
  by (simp add: Robust_testConnection_def add_timer_def tracked_other' Robust_connect_tracked)

lemma Robust_fire_tracked:
  "Robust_one_timer s \<Longrightarrow> Robust_one_timer (Robust_fire tid s)"
  by (simp add: Robust_fire_def host_defs Robust_reconnect_callback_tracked
      Robust_ping_callback_tracked Robust_force_connect_callback_def Robust_connect_tracked
      tracked_filter split: option.splits Robust_timer.splits)

lemma Robust_step_tracked:
  "Robust_one_timer s \<Longrightarrow> Robust_one_timer (Robust_step JSON_parse a s)"
  by (cases a)
     (simp_all add: Robust_connect_tracked Robust_disconnect_tracked Robust_send_tracked
        Robust_onopen_tracked Robust_onmessage_tracked Robust_onerror_tracked
        Robust_onclose_tracked Robust_fire_tracked Robust_forceReconnect_tracked
        Robust_testConnection_tracked set_readyState_def)

lemma Robust_run_tracked:
  "Robust_one_timer s \<Longrightarrow> Robust_one_timer (fold (Robust_step JSON_parse) as s)"
  by (induction as arbitrary: s) (simp_all add: Robust_step_tracked)

subsection \<open>WebSocketService\<close>














subsection \<open>What a close event schedules\<close>





lemma Robust_new_tracked: "Robust_one_timer (Robust_new base cid throws)"
  by (simp add: Robust_new_def tracked_def)





subsection \<open>The heartbeat timer of RobustWebSocketService\<close>

lemma tracked_none:
  "tracked P ts n r \<Longrightarrow> \<forall>t \<in> set ts. Q t \<longrightarrow> Some (fst t) \<noteq> r \<Longrightarrow>
     filter (\<lambda>t. P (fst (snd (snd t)))) (filter Q ts) = []"
  by (auto simp: tracked_def filter_empty_conv)

lemma Robust_scheduleReconnect_ping:
  "Robust_one_ping s \<Longrightarrow> Robust_one_ping (Robust_scheduleReconnect s)"
  by (simp add: Robust_scheduleReconnect_def host_defs tracked_other)

lemma Robust_connect_ping:
  "Robust_one_ping s \<Longrightarrow> Robust_one_ping (Robust_connect chs s)"
  by (simp add: Robust_connect_def host_defs Robust_scheduleReconnect_ping split: option.splits)

lemma Robust_send_ping:
  "Robust_one_ping s \<Longrightarrow> Robust_one_ping (snd (Robust_send data s))"
  by (simp add: Robust_send_def host_defs Robust_connect_ping split: option.splits)

lemma Robust_onopen_ping:
  "Robust_one_ping s \<Longrightarrow> Robust_one_ping (Robust_onopen s)"
  by (simp add: Robust_onopen_def Robust_startPingInterval_def host_defs Robust_send_ping
      tracked_scheduled)

lemma Robust_onmessage_ping:
  "Robust_one_ping s \<Longrightarrow> Robust_one_ping (Robust_onmessage JSON_parse text s)"
  by (simp add: Robust_onmessage_def Robust_handleMessage_def host_defs split: option.splits)

lemma Robust_onerror_ping:
  "Robust_one_ping s \<Longrightarrow> Robust_one_ping (Robust_onerror s)"
  by (simp add: Robust_onerror_def host_defs Robust_scheduleReconnect_ping)

lemma Robust_onclose_ping:
  "Robust_one_ping s \<Longrightarrow> Robust_one_ping (Robust_onclose code s)"
  by (simp add: Robust_onclose_def host_defs Robust_scheduleReconnect_ping tracked_cleared)

lemma Robust_disconnect_ping:
  "Robust_one_ping s \<Longrightarrow> Robust_one_ping (Robust_disconnect s)"
  by (simp add: Robust_disconnect_def host_defs tracked_cleared split: option.splits)

lemma Robust_reconnect_callback_ping:
  "Robust_one_ping s \<Longrightarrow> Robust_one_ping (Robust_reconnect_callback s)"
  by (simp add: Robust_reconnect_callback_def host_defs Robust_connect_ping)

lemma Robust_ping_callback_ping:
  "Robust_one_ping s \<Longrightarrow> Robust_one_ping (Robust_ping_callback s)"
  by (simp add: Robust_ping_callback_def host_defs Robust_send_ping tracked_cleared)

lemma Robust_forceReconnect_ping:
  "Robust_one_ping s \<Longrightarrow> Robust_one_ping (Robust_forceReconnect s)"
  by (simp add: Robust_forceReconnect_def add_timer_def tracked_other' Robust_disconnect_ping
      console_log_def)

lemma Robust_testConnection_ping:
  "Robust_one_ping s \<Longrightarrow> Robust_one_ping (Robust_testConnection s)"
  by (simp add: Robust_testConnection_def add_timer_def tracked_other' Robust_connect_ping)

lemma Robust_fire_ping:
  "Robust_one_ping s \<Longrightarrow> Robust_one_ping (Robust_fire tid s)"
  by (simp add: Robust_fire_def host_defs Robust_reconnect_callback_ping
      Robust_ping_callback_ping Robust_force_connect_callback_def Robust_connect_ping
      tracked_filter split: option.splits Robust_timer.splits)

lemma Robust_step_ping:
  "Robust_one_ping s \<Longrightarrow> Robust_one_ping (Robust_step JSON_parse a s)"
  by (cases a)
     (simp_all add: Robust_connect_ping Robust_disconnect_ping Robust_send_ping
        Robust_onopen_ping Robust_onmessage_ping Robust_onerror_ping
        Robust_onclose_ping Robust_fire_ping Robust_forceReconnect_ping
        Robust_testConnection_ping set_readyState_def)

lemma Robust_run_ping:
  "Robust_one_ping s \<Longrightarrow> Robust_one_ping (fold (Robust_step JSON_parse) as s)"
  by (induction as arbitrary: s) (simp_all add: Robust_step_ping)

lemma Robust_new_ping: "Robust_one_ping (Robust_new base cid throws)"
  by (simp add: Robust_new_def tracked_def)

text \<open>
  \<^verbatim>\<open>disconnect\<close> leaves pending neither a timer set by \<^verbatim>\<open>scheduleReconnect\<close> nor a
  heartbeat timer, in any state in which the service holds the ids of those that are
  pending, and so in every state that a service reaches from its construction.
\<close>

lemma Robust_disconnect_cancels:
  assumes "Robust_one_timer s" "Robust_one_ping s"
  shows "pending (\<lambda>cb. cb = Robust_reconnect) (Robust_disconnect s) = []"
    and "pending (\<lambda>cb. cb = Robust_ping) (Robust_disconnect s) = []"
  using tracked_none [OF assms(1), of
      "\<lambda>t. Some (fst t) \<noteq> reconnectTimer s \<and> Some (fst t) \<noteq> pingTimer s"]
    tracked_none [OF assms(2), of
      "\<lambda>t. Some (fst t) \<noteq> reconnectTimer s \<and> Some (fst t) \<noteq> pingTimer s"]
  by (simp_all add: Robust_disconnect_def host_defs conj_commute split: option.splits)

lemma Robust_disconnect_cancels_reachable:
  "pending (\<lambda>cb. cb = Robust_reconnect)
     (Robust_disconnect (fold (Robust_step JSON_parse) as (Robust_new base cid throws))) = []"
  "pending (\<lambda>cb. cb = Robust_ping)
     (Robust_disconnect (fold (Robust_step JSON_parse) as (Robust_new base cid throws))) = []"
  by (intro Robust_disconnect_cancels Robust_run_tracked Robust_run_ping Robust_new_tracked
      Robust_new_ping)+

lemma Fixed_disconnect_cancels:
  assumes "Fixed_one_timer s"
  shows "pending Fixed_is_reconnect (Fixed_disconnect s) = []"
  using tracked_none [OF assms, of "\<lambda>t. Some (fst t) \<noteq> reconnectTimer s"]
  by (simp add: Fixed_disconnect_def host_defs split: option.splits)

section \<open>disconnect and the timers that reconnect\<close>

subsection \<open>What disconnect does\<close>

lemma Robust_disconnect_fields:
  "\<not> shouldReconnect (Robust_disconnect s)"
  "reconnectTimer (Robust_disconnect s) = None"
  "pingTimer (Robust_disconnect s) = None"
  "ws (Robust_disconnect s) = None"
  "\<not> isConnecting (Robust_disconnect s)"
  "reconnectAttempts (Robust_disconnect s) = 0"
  "sockets_created (Robust_disconnect s) = sockets_created s"
  "timers (Robust_disconnect s)
     = filter (\<lambda>t. Some (fst t) \<noteq> reconnectTimer s \<and> Some (fst t) \<noteq> pingTimer s) (timers s)"
  "close_calls (Robust_disconnect s)
     = close_calls s @ (case ws s of None \<Rightarrow> [] | Some w \<Rightarrow> [(sock_id w, 1000, ''Normal closure by client'')])"
  by (simp_all add: Robust_disconnect_def host_defs conj_commute split: option.splits)

lemma Robust_disconnect_twice:
  "Robust_disconnect (Robust_disconnect s) = console_log (Robust_disconnect s)"
proof -
  have "Robust_disconnect d = console_log d"
    if "\<not> shouldReconnect d" "reconnectTimer d = None" "pingTimer d = None" "ws d = None"
      "\<not> isConnecting d" "reconnectAttempts d = 0" for d
    using that by (cases d) (simp add: Robust_disconnect_def host_defs)
  then show ?thesis
    by (simp add: Robust_disconnect_fields)
qed

lemma Fixed_disconnect_fields:
  "retryCount (Fixed_disconnect s) = maxRetryAttempts s"
  "maxRetryAttempts (Fixed_disconnect s) = maxRetryAttempts s"
  "reconnectTimer (Fixed_disconnect s) = None"
  "ws (Fixed_disconnect s) = None"
  "\<not> isConnecting (Fixed_disconnect s)"
  "sockets_created (Fixed_disconnect s) = sockets_created s"
  "timers (Fixed_disconnect s) = filter (\<lambda>t. Some (fst t) \<noteq> reconnectTimer s) (timers s)"
  "close_calls (Fixed_disconnect s)
     = close_calls s @ (case ws s of None \<Rightarrow> [] | Some w \<Rightarrow> [(sock_id w, 1000, ''Normal closure'')])"
  by (simp_all add: Fixed_disconnect_def host_defs split: option.splits)

lemma Fixed_disconnect_twice:
  "Fixed_disconnect (Fixed_disconnect s) = console_log (Fixed_disconnect s)"
proof -
  have "Fixed_disconnect d = console_log d"
    if "retryCount d = maxRetryAttempts d" "reconnectTimer d = None" "ws d = None"
      "\<not> isConnecting d" for d
    using that by (cases d) (simp add: Fixed_disconnect_def host_defs)
  then show ?thesis
    by (simp add: Fixed_disconnect_fields)
qed

text \<open>
  The callback of a timer set by \<^verbatim>\<open>scheduleReconnect\<close> does nothing once
  \<^verbatim>\<open>disconnect\<close> has run, should it run all the same.
\<close>

lemma Robust_reconnect_callback_after_disconnect:
  "Robust_reconnect_callback (Robust_disconnect s) = Robust_disconnect s"
  by (simp add: Robust_reconnect_callback_def Robust_disconnect_fields)

lemma Fixed_reconnect_callback_after_disconnect:
  "Fixed_reconnect_callback chs (Fixed_disconnect s) = Fixed_disconnect s"
  by (simp add: Fixed_reconnect_callback_def Fixed_disconnect_fields)

subsection \<open>The timer of forceReconnect\<close>

text \<open>
  C4 on \<^verbatim>\<open>RobustWebSocketService\<close>. \<^verbatim>\<open>forceReconnect()\<close> calls \<^verbatim>\<open>disconnect()\<close> and
  sets a timer of one second whose callback is \<^verbatim>\<open>connect(this.channels)\<close>; the id of
  that timer is kept in no field. A connected service runs \<^verbatim>\<open>forceReconnect()\<close> and then,
  within that second, \<^verbatim>\<open>disconnect()\<close>. \<^verbatim>\<open>disconnect()\<close> returns with
  \<open>shouldReconnect\<close> cleared, no socket held, and the timer still pending. When the timer
  fires, \<^verbatim>\<open>connect\<close> creates a second socket, holds it, and sets \<open>shouldReconnect\<close> again.
\<close>

theorem forceReconnect_timer_survives_disconnect:
  "timers Robust_forced = [(2, Timeout, Robust_force_connect, 1000)]
 \<and> timers (Robust_disconnect Robust_forced) = [(2, Timeout, Robust_force_connect, 1000)]
 \<and> \<not> shouldReconnect (Robust_disconnect Robust_forced)
 \<and> ws (Robust_disconnect Robust_forced) = None
 \<and> sockets_created (Robust_disconnect Robust_forced) = 1
 \<and> ws (Robust_fire 2 (Robust_disconnect Robust_forced))
     = Some \<lparr>sock_id = 1, sock_url = ''ws://localhost:8002/ws/airiss-1?channels=analysis,alerts'',
             readyState = CONNECTING\<rparr>
 \<and> sockets_created (Robust_fire 2 (Robust_disconnect Robust_forced)) = 2
 \<and> shouldReconnect (Robust_fire 2 (Robust_disconnect Robust_forced))"
proof -
  have c: "timers Robust_connected = [(1, Interval, Robust_ping, 30000)]"
    "reconnectTimer Robust_connected = None" "pingTimer Robust_connected = Some 1"
    "next_timer Robust_connected = 2" "sockets_created Robust_connected = 1"
    "url Robust_connected = ''ws://localhost:8002/ws''" "clientId Robust_connected = ''airiss-1''"
    "channels Robust_connected = [''analysis'', ''alerts'']"
    "WebSocket_throws Robust_connected = (\<lambda>u. False)"
    by (simp_all add: Robust_connected_def Robust_fresh_def Robust_new_def Robust_socket_opens_def
        Robust_onopen_def Robust_startPingInterval_def Robust_send_def Robust_connect_def
        with_timestamp_def with_client_id_def host_defs)
  have f: "timers Robust_forced = [(2, Timeout, Robust_force_connect, 1000)]"
    "reconnectTimer Robust_forced = None" "pingTimer Robust_forced = None"
    "sockets_created Robust_forced = 1"
    "url Robust_forced = ''ws://localhost:8002/ws''" "clientId Robust_forced = ''airiss-1''"
    "channels Robust_forced = [''analysis'', ''alerts'']"
    "WebSocket_throws Robust_forced = (\<lambda>u. False)"
    by (simp_all add: Robust_forced_def Robust_forceReconnect_def add_timer_def
        Robust_disconnect_fields c console_log_def Robust_disconnect_def host_defs
        split: option.splits)
  have d: "timers (Robust_disconnect Robust_forced) = [(2, Timeout, Robust_force_connect, 1000)]"
    "url (Robust_disconnect Robust_forced) = ''ws://localhost:8002/ws''"
    "clientId (Robust_disconnect Robust_forced) = ''airiss-1''"
    "channels (Robust_disconnect Robust_forced) = [''analysis'', ''alerts'']"
    "WebSocket_throws (Robust_disconnect Robust_forced) = (\<lambda>u. False)"
    "sockets_created (Robust_disconnect Robust_forced) = 1"
    by (simp_all add: Robust_disconnect_fields f Robust_disconnect_def host_defs
        split: option.splits)
  show ?thesis
    by (simp add: f d Robust_disconnect_fields Robust_fire_def Robust_force_connect_callback_def
        Robust_connect_def host_defs)
qed

subsection \<open>A socket that WebSocketService has abandoned\<close>

text \<open>
  In \<^verbatim>\<open>WebSocketService\<close> the mark that \<^verbatim>\<open>disconnect\<close> leaves is \<open>retryCount\<close> at its
  maximum, and the open handler of any socket resets \<open>retryCount\<close>. Where a \<^verbatim>\<open>connect()\<close>
  has abandoned a socket that was still connecting, that socket can open after a later
  \<^verbatim>\<open>disconnect()\<close>; when it then closes with a code other than 1000 a reconnect timer is
  set, and its firing creates a socket.
\<close>

lemma Fixed_abandoned_socket_reconnects:
  "sockets_created (Fixed_disconnect (Fixed_connect [''analysis''] Fixed_second_attempt)) = 3
 \<and> sockets_created
      (fold (Fixed_step rejects)
         [Fixed_event_open, Fixed_event_close [''analysis''] 1006, Fixed_timer_fires 1]
         (Fixed_disconnect (Fixed_connect [''analysis''] Fixed_second_attempt))) = 4"
  by (simp add: Fixed_second_attempt_def Fixed_fresh_def Fixed_new_def Fixed_connect_def
      Fixed_disconnect_def Fixed_onclose_def Fixed_onopen_def Fixed_send_def Fixed_emit_def
      Fixed_scheduleReconnect_def Fixed_fire_def Fixed_reconnect_callback_def host_defs
      Math_pow_def)

end
